theory Spec2Isabelle
  imports Main
begin

section \<open>Strings\<close>

text \<open>
  JavaScript strings are modelled as \<^typ>\<open>string\<close> (lists of characters). The three
  string methods the scope matchers use are written out: \<^verbatim>\<open>s.startsWith(p)\<close>,
  \<^verbatim>\<open>s.endsWith(p)\<close>, \<^verbatim>\<open>s.includes(p)\<close> (substring search) and
  \<^verbatim>\<open>s.slice(0, -n)\<close> (all but the last \<open>n\<close> characters; the empty string when the
  string is shorter than \<open>n\<close>).
\<close>

definition startsWith :: "string \<Rightarrow> string \<Rightarrow> bool" where
  "startsWith s p = (take (length p) s = p)"

definition endsWith :: "string \<Rightarrow> string \<Rightarrow> bool" where
  "endsWith s p = (length p \<le> length s \<and> drop (length s - length p) s = p)"

fun includes_str :: "string \<Rightarrow> string \<Rightarrow> bool" where
  "includes_str [] p = (p = [])"
| "includes_str (c # cs) p = (startsWith (c # cs) p \<or> includes_str cs p)"

definition slice_end :: "string \<Rightarrow> nat \<Rightarrow> string" where
  "slice_end s n = take (length s - n) s"

section \<open>Scope matching\<close>

text \<open>
  \<^verbatim>\<open>matchScope(pattern, required)\<close> of \<^verbatim>\<open>lib/proofi-sdk.js\<close>: an exact match, or a
  pattern ending in \<^verbatim>\<open>/*\<close> whose text before these two characters is a prefix of the
  required path.
\<close>

definition matchScope :: "string \<Rightarrow> string \<Rightarrow> bool" where
  "matchScope pattern required =
     (if pattern = required then True
      else if endsWith pattern ''/*'' then
        (let prefix = slice_end pattern 2 in startsWith required prefix)
      else False)"

text \<open>
  The capability token of the agent side (\<^verbatim>\<open>crypto.ts\<close>). Field names carry the prefix
  \<open>ct_\<close> (\<^verbatim>\<open>v, id, iss, sub, iat, exp, scopes, ...\<close> in the source). The two signature
  fields are optional in the model: \<^verbatim>\<open>delete payload.sig\<close> removes the property from an
  object, and \<open>None\<close> is the absent property.
\<close>

record scope =
  path :: string
  permissions :: "string list"

record WrappedDEK =
  ciphertext :: string
  ephemeralPublicKey :: string
  nonce :: string

record CapabilityToken =
  ct_v :: int
  ct_id :: string
  ct_iss :: string
  ct_sub :: string
  ct_iat :: int
  ct_exp :: int
  ct_scopes :: "scope list"
  ct_bucketId :: string
  ct_resources :: "string list"
  ct_cdnUrl :: string
  ct_wrappedDEK :: WrappedDEK
  ct_sig :: "string option"
  ct_sigAlg :: "string option"

text \<open>
  JavaScript passes a token by reference. The token objects live in a store, a list
  indexed by address; a function of \<^verbatim>\<open>crypto.ts\<close> takes the store and the address of its
  token, and returns its result together with the store as the call leaves it.
\<close>

type_synonym addr = nat
type_synonym heap = "CapabilityToken list"

text \<open>
  \<^verbatim>\<open>hasScope(token, requiredPath, permission)\<close>: some scope whose path \<^emph>\<open>contains\<close> the
  required path as a substring and whose permissions contain the permission.
\<close>

definition hasScope :: "heap \<Rightarrow> addr \<Rightarrow> string \<Rightarrow> string \<Rightarrow> bool \<times> heap" where
  "hasScope h token requiredPath permission =
     (list_ex (\<lambda>sc. includes_str (path sc) requiredPath \<and> permission \<in> set (permissions sc))
        (ct_scopes (h ! token)), h)"

text \<open>
  \<^verbatim>\<open>isTokenExpired(token)\<close>; \<open>nowMs\<close> is the reading of \<^verbatim>\<open>Date.now()\<close>,
  and \<^verbatim>\<open>Math.floor(nowMs / 1000)\<close> is integer division.
\<close>

definition isTokenExpired :: "heap \<Rightarrow> addr \<Rightarrow> int \<Rightarrow> bool \<times> heap" where
  "isTokenExpired h token nowMs = (let now = nowMs div 1000 in (ct_exp (h ! token) < now, h))"

text \<open>A token that expires at second 4600, for the examples.\<close>

definition demo_token :: "scope list \<Rightarrow> CapabilityToken" where
  "demo_token scs =
     \<lparr> ct_v = 1, ct_id = ''tok-1'', ct_iss = ''did:user'', ct_sub = ''agent-pk'',
       ct_iat = 1000, ct_exp = 4600, ct_scopes = scs, ct_bucketId = ''b'',
       ct_resources = [], ct_cdnUrl = ''https://cdn'',
       ct_wrappedDEK = \<lparr> ciphertext = ''AAAA'', ephemeralPublicKey = ''AAAA'', nonce = ''AAAA'' \<rparr>,
       ct_sig = Some ''AAAA'', ct_sigAlg = Some ''ed25519'' \<rparr>"

section \<open>The wallet-side SDK: access tokens\<close>

text \<open>
  JavaScript values, as far as the SDK stores them in audit entries: a JSON-like tree,
  with \<open>JUndefined\<close> for \<^verbatim>\<open>undefined\<close>. An object is its list of own properties in
  insertion order.
\<close>

datatype jsval =
    JUndefined
  | JNull
  | JBool bool
  | JNum int
  | JStr string
  | JArr "jsval list"
  | JObj "(string \<times> jsval) list"

type_synonym obj = "(string \<times> jsval) list"

text \<open>
  The token object of \<^verbatim>\<open>createAccessToken\<close>. \<open>createdAt\<close> and \<open>expiresAt\<close> are ISO
  strings in the source, written by \<^verbatim>\<open>toISOString\<close> and read back by \<^verbatim>\<open>new Date\<close>; the
  model keeps the millisecond count they denote.
\<close>

record token =
  tokenId :: string
  agentId :: string
  scopes :: "string list"
  createdAt :: int
  expiresAt :: int
  agentKey :: string
  revoked :: bool

text \<open>The fields of \<^verbatim>\<open>ProofiSDK\<close> that the modelled methods read or write.\<close>

record sdk =
  auditChain :: "obj list"
  tokens :: "string \<rightharpoonup> token"

text \<open>\<^verbatim>\<open>{ valid: true, token }\<close> or \<^verbatim>\<open>{ valid: false, reason }\<close>.\<close>

datatype verdict = Valid token | Invalid string

fun rejection :: "verdict \<Rightarrow> string option" where
  "rejection (Valid t) = None"
| "rejection (Invalid r) = Some r"

text \<open>
  A \<^verbatim>\<open>Date\<close> holds a time value of at most 8.64e15 ms in absolute value; \<^verbatim>\<open>toISOString\<close>
  throws a RangeError on any other.
\<close>

definition valid_time :: "int \<Rightarrow> bool" where
  "valid_time t = (- 8640000000000000 \<le> t \<and> t \<le> 8640000000000000)"

text \<open>
  \<^verbatim>\<open>createAccessToken(agentId, scopes, durationMs)\<close>. The environment supplies the two
  random base64 strings and the two clock readings (\<^verbatim>\<open>new Date()\<close>, \<^verbatim>\<open>Date.now()\<close>).
  \<open>None\<close> is the RangeError of \<^verbatim>\<open>toISOString\<close>; the map is then not written.
\<close>

definition createAccessToken ::
  "string \<Rightarrow> string \<Rightarrow> int \<Rightarrow> int \<Rightarrow> string \<Rightarrow> string list \<Rightarrow> int \<Rightarrow> sdk \<Rightarrow> (token \<times> sdk) option" where
  "createAccessToken rndTokenId rndAgentKey tCreated tNow agent scs durationMs st =
     (if \<not> valid_time tCreated then None
      else if \<not> valid_time (tNow + durationMs) then None
      else
        (let tok = \<lparr> tokenId = rndTokenId, agentId = agent, scopes = scs,
                      createdAt = tCreated, expiresAt = tNow + durationMs,
                      agentKey = rndAgentKey, revoked = False \<rparr>
         in Some (tok, st\<lparr> tokens := (tokens st)(rndTokenId \<mapsto> tok) \<rparr>)))"

text \<open>
  \<^verbatim>\<open>validateToken(tokenId, requiredScope)\<close>; \<open>now\<close> is the reading of \<^verbatim>\<open>new Date()\<close>. The
  optional \<open>requiredScope\<close> is checked only when truthy (present and not the empty
  string). The method writes nothing: the state is returned as it was received.
\<close>

definition validateToken :: "sdk \<Rightarrow> int \<Rightarrow> string \<Rightarrow> string option \<Rightarrow> verdict \<times> sdk" where
  "validateToken st now tid requiredScope =
     (case tokens st tid of
        None \<Rightarrow> (Invalid ''Token not found'', st)
      | Some tok \<Rightarrow>
          if revoked tok then (Invalid ''Token revoked'', st)
          else if expiresAt tok < now then (Invalid ''Token expired'', st)
          else
            (case requiredScope of
               None \<Rightarrow> (Valid tok, st)
             | Some r \<Rightarrow>
                 if r \<noteq> [] \<and> \<not> list_ex (\<lambda>s. matchScope s r) (scopes tok)
                 then (Invalid (''Scope '' @ r @ '' not granted''), st)
                 else (Valid tok, st)))"

text \<open>\<^verbatim>\<open>revokeToken(tokenId)\<close>: sets the flag of the stored token, if there is one.\<close>

definition revokeToken :: "sdk \<Rightarrow> string \<Rightarrow> sdk" where
  "revokeToken st tid =
     (case tokens st tid of
        None \<Rightarrow> st
      | Some tok \<Rightarrow> st\<lparr> tokens := (tokens st)(tid \<mapsto> tok\<lparr> revoked := True \<rparr>) \<rparr>)"

text \<open>A registered, unrevoked token for agent \<open>agent-A\<close> that expires at 9000 ms.\<close>

definition tokA :: token where
  "tokA = \<lparr> tokenId = ''t1'', agentId = ''agent-A'', scopes = [''health/sleep/*''],
            createdAt = 1000, expiresAt = 9000, agentKey = ''key-A'', revoked = False \<rparr>"

definition sdkA :: sdk where
  "sdkA = \<lparr> auditChain = [], tokens = [''t1'' \<mapsto> tokA] \<rparr>"

section \<open>The agent's keypair store\<close>

type_synonym bytes = "nat list"

text \<open>
  Property access \<^verbatim>\<open>x.k\<close> on a JavaScript value: a TypeError (\<open>None\<close>) on \<^verbatim>\<open>null\<close> and
  \<^verbatim>\<open>undefined\<close>, the property's value or \<^verbatim>\<open>undefined\<close> otherwise. Arrays and strings
  have their \<^verbatim>\<open>length\<close>.
\<close>

fun getProp :: "jsval \<Rightarrow> string \<Rightarrow> jsval option" where
  "getProp JUndefined k = None"
| "getProp JNull k = None"
| "getProp (JObj ps) k = Some (case map_of ps k of None \<Rightarrow> JUndefined | Some x \<Rightarrow> x)"
| "getProp (JArr xs) k = Some (if k = ''length'' then JNum (int (length xs)) else JUndefined)"
| "getProp (JStr s) k = Some (if k = ''length'' then JNum (int (length s)) else JUndefined)"
| "getProp (JBool b) k = Some JUndefined"
| "getProp (JNum n) k = Some JUndefined"

record AgentKeypair =
  publicKey :: bytes
  privateKey :: bytes

text \<open>
  The part of the file system and of the console that \<^verbatim>\<open>keys.ts\<close> touches: whether the
  \<^verbatim>\<open>keys\<close> directory exists, the content of \<^verbatim>\<open>keys/agent-keypair.json\<close> (\<open>None\<close> when the
  file does not exist), and the lines written to the console. The \<^verbatim>\<open>chmod\<close> of the file,
  whose failure the source ignores, is left out.
\<close>

record keyfs =
  keys_dir :: bool
  keypair_file :: "string option"
  console :: "string list"

definition log_line :: "string \<Rightarrow> keyfs \<Rightarrow> keyfs" where
  "log_line msg fs = fs\<lparr> console := console fs @ [msg] \<rparr>"

definition ensureKeysDir :: "keyfs \<Rightarrow> keyfs" where
  "ensureKeysDir fs =
     (if \<not> keys_dir fs then log_line ''[keys] Created keys directory'' (fs\<lparr> keys_dir := True \<rparr>)
      else fs)"

text \<open>
  \<^verbatim>\<open>saveKeypair(keypair)\<close>. \<open>encodeBase64\<close> (tweetnacl-util) and \<open>stringify\<close>
  (\<^verbatim>\<open>JSON.stringify(stored, null, 2)\<close>) are library functions, taken as parameters;
  \<open>nowIso\<close> is \<^verbatim>\<open>new Date().toISOString()\<close>.
\<close>

definition saveKeypair ::
  "(bytes \<Rightarrow> string) \<Rightarrow> (jsval \<Rightarrow> string) \<Rightarrow> string \<Rightarrow> AgentKeypair \<Rightarrow> keyfs \<Rightarrow> keyfs" where
  "saveKeypair encodeBase64 stringify nowIso keypair fs =
     (let fs1 = ensureKeysDir fs;
          stored = JObj [(''publicKey'', JStr (encodeBase64 (publicKey keypair))),
                         (''privateKey'', JStr (encodeBase64 (privateKey keypair))),
                         (''createdAt'', JStr nowIso),
                         (''algorithm'', JStr ''X25519'')];
          fs2 = fs1\<lparr> keypair_file := Some (stringify stored) \<rparr>
      in log_line ''[keys] Saved new keypair'' fs2)"

text \<open>
  The \<^verbatim>\<open>try\<close> block of \<^verbatim>\<open>loadKeypair\<close>: \<open>None\<close> when any step throws. \<open>parse\<close> is
  \<^verbatim>\<open>JSON.parse\<close> (\<open>None\<close> on a SyntaxError) and \<open>decodeBase64\<close> the decoder of
  tweetnacl-util applied to whatever value the parsed record holds (\<open>None\<close> when it
  throws).
\<close>

definition decodeStored ::
  "(string \<Rightarrow> jsval option) \<Rightarrow> (jsval \<Rightarrow> bytes option) \<Rightarrow> string \<Rightarrow> AgentKeypair option" where
  "decodeStored parse decodeBase64 content =
     (case parse content of
        None \<Rightarrow> None
      | Some stored \<Rightarrow>
          (case getProp stored ''publicKey'' of
             None \<Rightarrow> None
           | Some pk \<Rightarrow>
               (case decodeBase64 pk of
                  None \<Rightarrow> None
                | Some pkb \<Rightarrow>
                    (case getProp stored ''privateKey'' of
                       None \<Rightarrow> None
                     | Some sk \<Rightarrow>
                         (case decodeBase64 sk of
                            None \<Rightarrow> None
                          | Some skb \<Rightarrow> Some \<lparr> publicKey = pkb, privateKey = skb \<rparr>)))))"

text \<open>
  \<^verbatim>\<open>loadKeypair()\<close>: \<^verbatim>\<open>null\<close> when the file does not exist, and also, after a line on
  the error console, when the \<^verbatim>\<open>try\<close> block throws.
\<close>

definition loadKeypair ::
  "(string \<Rightarrow> jsval option) \<Rightarrow> (jsval \<Rightarrow> bytes option) \<Rightarrow> keyfs \<Rightarrow> AgentKeypair option \<times> keyfs" where
  "loadKeypair parse decodeBase64 fs =
     (case keypair_file fs of
        None \<Rightarrow> (None, fs)
      | Some content \<Rightarrow>
          (case decodeStored parse decodeBase64 content of
             Some keypair \<Rightarrow> (Some keypair, fs)
           | None \<Rightarrow> (None, log_line ''[keys] Failed to load keypair'' fs)))"

text \<open>
  \<^verbatim>\<open>getOrCreateKeypair()\<close>; \<open>fresh\<close> is the keypair that \<^verbatim>\<open>nacl.box.keyPair()\<close> draws when
  \<^verbatim>\<open>generateKeypair\<close> is called.
\<close>

definition getOrCreateKeypair ::
  "(string \<Rightarrow> jsval option) \<Rightarrow> (jsval \<Rightarrow> bytes option) \<Rightarrow> (bytes \<Rightarrow> string) \<Rightarrow> (jsval \<Rightarrow> string)
     \<Rightarrow> AgentKeypair \<Rightarrow> string \<Rightarrow> keyfs \<Rightarrow> AgentKeypair \<times> keyfs" where
  "getOrCreateKeypair parse decodeBase64 encodeBase64 stringify fresh nowIso fs =
     (case loadKeypair parse decodeBase64 fs of
        (Some keypair, fs1) \<Rightarrow> (keypair, log_line ''[keys] Loaded existing keypair'' fs1)
      | (None, fs1) \<Rightarrow>
          (let fs2 = log_line ''[keys] Generating new X25519 keypair...'' fs1;
               keypair = fresh;
               fs3 = saveKeypair encodeBase64 stringify nowIso keypair fs2
           in (keypair, fs3)))"

text \<open>
  Stand-ins for the library functions in the examples: a parser that knows one well-formed
  file and rejects every other content, a decoder and an encoder for the two key strings
  of that file, and a serialiser that writes the public key string.
\<close>

definition goodStored :: jsval where
  "goodStored = JObj [(''publicKey'', JStr ''AQI=''), (''privateKey'', JStr ''AwQ=''),
                      (''createdAt'', JStr ''2024-02-07''), (''algorithm'', JStr ''X25519'')]"

definition parse1 :: "string \<Rightarrow> jsval option" where
  "parse1 = [''{good}'' \<mapsto> goodStored]"

definition decode1 :: "jsval \<Rightarrow> bytes option" where
  "decode1 = [JStr ''AQI='' \<mapsto> [1, 2], JStr ''AwQ='' \<mapsto> [3, 4], JStr ''BQY='' \<mapsto> [5, 6]]"

definition encode1 :: "bytes \<Rightarrow> string" where
  "encode1 b = (if b = [1, 2] then ''AQI='' else if b = [3, 4] then ''AwQ=''
                else if b = [5, 6] then ''BQY='' else ''BwgJ'')"

definition stringify1 :: "jsval \<Rightarrow> string" where
  "stringify1 x = (case getProp x ''publicKey'' of Some (JStr s) \<Rightarrow> ''{pk:'' @ s @ ''}'' | _ \<Rightarrow> ''{}'')"

definition freshKeypair :: AgentKeypair where
  "freshKeypair = \<lparr> publicKey = [5, 6], privateKey = [7, 8, 9] \<rparr>"

definition corruptFs :: keyfs where
  "corruptFs = \<lparr> keys_dir = True, keypair_file = Some ''{ publicKey: AQ'', console = [] \<rparr>"

section \<open>The audit trail\<close>

text \<open>
  Audit entries are objects (property lists). \<open>entryProp\<close> reads a property
  (\<^verbatim>\<open>undefined\<close> when absent), \<open>setProp\<close> is the assignment \<^verbatim>\<open>o.k = x\<close> (a new property
  goes last) and \<open>removeProp\<close> the rest pattern \<^verbatim>\<open>{ k, ...rest } = o\<close>.
\<close>

definition entryProp :: "obj \<Rightarrow> string \<Rightarrow> jsval" where
  "entryProp e k = (case map_of e k of None \<Rightarrow> JUndefined | Some x \<Rightarrow> x)"

fun setProp :: "obj \<Rightarrow> string \<Rightarrow> jsval \<Rightarrow> obj" where
  "setProp [] k x = [(k, x)]"
| "setProp ((k', x') # ps) k x = (if k' = k then (k, x) # ps else (k', x') # setProp ps k x)"

definition removeProp :: "obj \<Rightarrow> string \<Rightarrow> obj" where
  "removeProp e k = filter (\<lambda>p. fst p \<noteq> k) e"

definition GENESIS :: string where
  "GENESIS = replicate 64 (CHR ''0'')"

text \<open>
  \<^verbatim>\<open>addAuditEntry(action, details)\<close>. Two library functions are parameters: \<open>stringify\<close>
  is \<^verbatim>\<open>JSON.stringify\<close>, and \<open>digest\<close> maps a string to the base64 text of the SHA-256
  digest of its UTF-8 encoding (\<^verbatim>\<open>crypto.subtle.digest\<close>, then \<^verbatim>\<open>btoa\<close>). \<open>now\<close> is the
  reading of \<^verbatim>\<open>Date.now()\<close>.
\<close>

definition addAuditEntry ::
  "(jsval \<Rightarrow> string) \<Rightarrow> (string \<Rightarrow> string) \<Rightarrow> int \<Rightarrow> jsval \<Rightarrow> jsval \<Rightarrow> sdk \<Rightarrow> obj \<times> sdk" where
  "addAuditEntry stringify digest now action details st =
     (let prevHash = (if length (auditChain st) > 0
                      then entryProp (last (auditChain st)) ''hash''
                      else JStr GENESIS);
          entry = [(''timestamp'', JNum now), (''action'', action),
                   (''details'', details), (''prevHash'', prevHash)];
          data = stringify (JObj entry);
          entry' = setProp entry ''hash'' (JStr (digest data))
      in (entry', st\<lparr> auditChain := auditChain st @ [entry'] \<rparr>))"

text \<open>
  \<^verbatim>\<open>verifyChain()\<close>: \<^verbatim>\<open>{ valid: true, entries }\<close> or \<^verbatim>\<open>{ valid: false, brokenAt, reason }\<close>.
  The loop over the index is \<open>verifyLoop\<close>. The two \<^verbatim>\<open>!==\<close> tests compare values of the
  chain with strings, or with a hash that has itself just passed the comparison with a
  string, so that comparing the values is what they do.
\<close>

datatype verification = ChainValid nat | ChainBroken nat string

function verifyLoop :: "(jsval \<Rightarrow> string) \<Rightarrow> (string \<Rightarrow> string) \<Rightarrow> obj list \<Rightarrow> nat \<Rightarrow> verification" where
  "verifyLoop stringify digest chain i =
     (if i < length chain then
        (let entry = chain ! i;
             expectedPrev = (if i = 0 then JStr GENESIS else entryProp (chain ! (i - 1)) ''hash'')
         in if entryProp entry ''prevHash'' \<noteq> expectedPrev
            then ChainBroken i ''prevHash mismatch''
            else
              (let hash = entryProp entry ''hash'';
                   rest = removeProp entry ''hash'';
                   data = stringify (JObj rest);
                   computed = JStr (digest data)
               in if computed \<noteq> hash then ChainBroken i ''Hash mismatch''
                  else verifyLoop stringify digest chain (i + 1)))
      else ChainValid (length chain))"
  by pat_completeness auto
termination
  by (relation "measure (\<lambda>(stringify, digest, chain, i). length chain - i)") auto

definition verifyChain :: "(jsval \<Rightarrow> string) \<Rightarrow> (string \<Rightarrow> string) \<Rightarrow> sdk \<Rightarrow> verification" where
  "verifyChain stringify digest st = verifyLoop stringify digest (auditChain st) 0"

text \<open>
  A chain built purely by sequential appends: the calls \<^verbatim>\<open>await addAuditEntry(action,
  details)\<close> one after the other, each with its clock reading.
\<close>

fun appendAll ::
  "(jsval \<Rightarrow> string) \<Rightarrow> (string \<Rightarrow> string) \<Rightarrow> (int \<times> jsval \<times> jsval) list \<Rightarrow> sdk \<Rightarrow> sdk" where
  "appendAll stringify digest [] st = st"
| "appendAll stringify digest ((now, action, details) # calls) st =
     appendAll stringify digest calls (snd (addAuditEntry stringify digest now action details st))"

definition emptySdk :: sdk where
  "emptySdk = \<lparr> auditChain = [], tokens = Map.empty \<rparr>"

text \<open>Altering the \<open>details\<close> of the entry at an index of the stored chain.\<close>

definition alterDetails :: "nat \<Rightarrow> jsval \<Rightarrow> sdk \<Rightarrow> sdk" where
  "alterDetails i d st =
     st\<lparr> auditChain := (auditChain st)[i := setProp (auditChain st ! i) ''details'' d] \<rparr>"

text \<open>What \<^verbatim>\<open>verifyChain\<close> hashes for an entry.\<close>

definition entryDigest :: "(jsval \<Rightarrow> string) \<Rightarrow> (string \<Rightarrow> string) \<Rightarrow> obj \<Rightarrow> string" where
  "entryDigest stringify digest entry = digest (stringify (JObj (removeProp entry ''hash'')))"

declare verifyLoop.simps [simp del]

text \<open>The two tests that \<open>verifyLoop\<close> makes at an index.\<close>

definition entry_ok :: "(jsval \<Rightarrow> string) \<Rightarrow> (string \<Rightarrow> string) \<Rightarrow> obj list \<Rightarrow> nat \<Rightarrow> bool" where
  "entry_ok S D chain i =
     (entryProp (chain ! i) ''prevHash''
        = (if i = 0 then JStr GENESIS else entryProp (chain ! (i - 1)) ''hash'')
      \<and> entryProp (chain ! i) ''hash'' = JStr (entryDigest S D (chain ! i)))"

text \<open>
  Stand-ins for the two library functions in the examples: a serialiser that writes a
  value in full, and string reversal in the place of the digest.
\<close>

fun show_nat :: "nat \<Rightarrow> string" where
  "show_nat n = (if n < 10 then [''0123456789'' ! n]
                 else show_nat (n div 10) @ [''0123456789'' ! (n mod 10)])"

fun show_js :: "jsval \<Rightarrow> string" where
  "show_js JUndefined = ''undefined''"
| "show_js JNull = ''null''"
| "show_js (JBool b) = (if b then ''true'' else ''false'')"
| "show_js (JNum n) = (if n < 0 then ''-'' @ show_nat (nat (- n)) else show_nat (nat n))"
| "show_js (JStr s) = ''<'' @ s @ ''>''"
| "show_js (JArr xs) = ''['' @ concat (map (\<lambda>x. show_js x @ '','') xs) @ '']''"
| "show_js (JObj ps) = ''{'' @ concat (map (\<lambda>p. fst p @ '':'' @ show_js (snd p) @ '','') ps) @ ''}''"

definition digest1 :: "string \<Rightarrow> string" where
  "digest1 s = rev s"

text \<open>
  A reference model of \<^verbatim>\<open>JSON.stringify\<close> on these values, for the examples: a property
  whose value is \<^verbatim>\<open>undefined\<close> is left out of an object, \<^verbatim>\<open>undefined\<close> in an array is
  written \<^verbatim>\<open>null\<close>, numbers are written in decimal, and a string is quoted, with the
  escapes for the quote, the backslash and the control characters. Property names are
  taken not to be array indices (which JavaScript would list first), and a number to be
  an integer below \<open>10\<^sup>2\<^sup>1\<close> in absolute value.
\<close>

definition control_escapes :: "(char \<times> string) list" where
  "control_escapes =
    [(CHR 0x00, [CHR 0x5C, CHR ''u'', CHR ''0'', CHR ''0'', CHR ''0'', CHR ''0'']),
     (CHR 0x01, [CHR 0x5C, CHR ''u'', CHR ''0'', CHR ''0'', CHR ''0'', CHR ''1'']),
     (CHR 0x02, [CHR 0x5C, CHR ''u'', CHR ''0'', CHR ''0'', CHR ''0'', CHR ''2'']),
     (CHR 0x03, [CHR 0x5C, CHR ''u'', CHR ''0'', CHR ''0'', CHR ''0'', CHR ''3'']),
     (CHR 0x04, [CHR 0x5C, CHR ''u'', CHR ''0'', CHR ''0'', CHR ''0'', CHR ''4'']),
     (CHR 0x05, [CHR 0x5C, CHR ''u'', CHR ''0'', CHR ''0'', CHR ''0'', CHR ''5'']),
     (CHR 0x06, [CHR 0x5C, CHR ''u'', CHR ''0'', CHR ''0'', CHR ''0'', CHR ''6'']),
     (CHR 0x07, [CHR 0x5C, CHR ''u'', CHR ''0'', CHR ''0'', CHR ''0'', CHR ''7'']),
     (CHR 0x08, [CHR 0x5C, CHR ''b'']),
     (CHR 0x09, [CHR 0x5C, CHR ''t'']),
     (CHR 0x0A, [CHR 0x5C, CHR ''n'']),
     (CHR 0x0B, [CHR 0x5C, CHR ''u'', CHR ''0'', CHR ''0'', CHR ''0'', CHR ''b'']),
     (CHR 0x0C, [CHR 0x5C, CHR ''f'']),
     (CHR 0x0D, [CHR 0x5C, CHR ''r'']),
     (CHR 0x0E, [CHR 0x5C, CHR ''u'', CHR ''0'', CHR ''0'', CHR ''0'', CHR ''e'']),
     (CHR 0x0F, [CHR 0x5C, CHR ''u'', CHR ''0'', CHR ''0'', CHR ''0'', CHR ''f'']),
     (CHR 0x10, [CHR 0x5C, CHR ''u'', CHR ''0'', CHR ''0'', CHR ''1'', CHR ''0'']),
     (CHR 0x11, [CHR 0x5C, CHR ''u'', CHR ''0'', CHR ''0'', CHR ''1'', CHR ''1'']),
     (CHR 0x12, [CHR 0x5C, CHR ''u'', CHR ''0'', CHR ''0'', CHR ''1'', CHR ''2'']),
     (CHR 0x13, [CHR 0x5C, CHR ''u'', CHR ''0'', CHR ''0'', CHR ''1'', CHR ''3'']),
     (CHR 0x14, [CHR 0x5C, CHR ''u'', CHR ''0'', CHR ''0'', CHR ''1'', CHR ''4'']),
     (CHR 0x15, [CHR 0x5C, CHR ''u'', CHR ''0'', CHR ''0'', CHR ''1'', CHR ''5'']),
     (CHR 0x16, [CHR 0x5C, CHR ''u'', CHR ''0'', CHR ''0'', CHR ''1'', CHR ''6'']),
     (CHR 0x17, [CHR 0x5C, CHR ''u'', CHR ''0'', CHR ''0'', CHR ''1'', CHR ''7'']),
     (CHR 0x18, [CHR 0x5C, CHR ''u'', CHR ''0'', CHR ''0'', CHR ''1'', CHR ''8'']),
     (CHR 0x19, [CHR 0x5C, CHR ''u'', CHR ''0'', CHR ''0'', CHR ''1'', CHR ''9'']),
     (CHR 0x1A, [CHR 0x5C, CHR ''u'', CHR ''0'', CHR ''0'', CHR ''1'', CHR ''a'']),
     (CHR 0x1B, [CHR 0x5C, CHR ''u'', CHR ''0'', CHR ''0'', CHR ''1'', CHR ''b'']),
     (CHR 0x1C, [CHR 0x5C, CHR ''u'', CHR ''0'', CHR ''0'', CHR ''1'', CHR ''c'']),
     (CHR 0x1D, [CHR 0x5C, CHR ''u'', CHR ''0'', CHR ''0'', CHR ''1'', CHR ''d'']),
     (CHR 0x1E, [CHR 0x5C, CHR ''u'', CHR ''0'', CHR ''0'', CHR ''1'', CHR ''e'']),
     (CHR 0x1F, [CHR 0x5C, CHR ''u'', CHR ''0'', CHR ''0'', CHR ''1'', CHR ''f''])]"

definition json_escape :: "char \<Rightarrow> string" where
  "json_escape c =
     (if c = CHR 0x22 then [CHR 0x5C, CHR 0x22]
      else if c = CHR 0x5C then [CHR 0x5C, CHR 0x5C]
      else (case map_of control_escapes c of None \<Rightarrow> [c] | Some e \<Rightarrow> e))"

definition json_quote :: "string \<Rightarrow> string" where
  "json_quote s = CHR 0x22 # concat (map json_escape s) @ [CHR 0x22]"

definition show_int :: "int \<Rightarrow> string" where
  "show_int n = (if n < 0 then ''-'' @ show_nat (nat (- n)) else show_nat (nat n))"

fun join :: "string \<Rightarrow> string list \<Rightarrow> string" where
  "join sep [] = []"
| "join sep [x] = x"
| "join sep (x # y # ys) = x @ sep @ join sep (y # ys)"

fun JSON_stringify :: "jsval \<Rightarrow> string" where
  "JSON_stringify JUndefined = ''undefined''"
| "JSON_stringify JNull = ''null''"
| "JSON_stringify (JBool b) = (if b then ''true'' else ''false'')"
| "JSON_stringify (JNum n) = show_int n"
| "JSON_stringify (JStr s) = json_quote s"
| "JSON_stringify (JArr xs) =
     ''['' @ join '','' (map (\<lambda>x. if x = JUndefined then ''null'' else JSON_stringify x) xs) @ '']''"
| "JSON_stringify (JObj ps) =
     ''{'' @ join '',''
               (map (\<lambda>p. json_quote (fst p) @ '':'' @ JSON_stringify (snd p))
                  (filter (\<lambda>p. snd p \<noteq> JUndefined) ps)) @ ''}''"

definition calls3 :: "(int \<times> jsval \<times> jsval) list" where
  "calls3 = [(100, JStr ''WALLET_CONNECTED'', JObj [(''walletAddress'', JStr ''local'')]),
             (105, JStr ''TOKEN_CREATED'', JObj [(''tokenId'', JStr ''t1'')]),
             (110, JStr ''TOKEN_REVOKED'', JObj [(''tokenId'', JStr ''t1''), (''reason'', JStr ''analysis_complete'')])]"

section \<open>Unwrapping the data key\<close>

text \<open>An exception value: its class and its message.\<close>

datatype js_error = TypeError string | Error string

text \<open>
  \<^verbatim>\<open>unwrapDEK(wrappedDEK, recipientPrivateKey)\<close>. The two library functions are parameters:
  \<open>decodeBase64\<close> of tweetnacl-util, which throws on text that is not base64, and
  \<open>box_open\<close>, \<^verbatim>\<open>nacl.box.open(ciphertext, nonce, publicKey, secretKey)\<close>, which throws on
  a key or nonce of the wrong size and returns \<^verbatim>\<open>null\<close> (\<open>None\<close>) when authentication
  fails. \<open>Inl\<close> is a thrown exception.
\<close>

definition DEK_UNWRAP_FAILED :: js_error where
  "DEK_UNWRAP_FAILED = Error ''DEK unwrapping failed - invalid key or corrupted data''"

definition unwrapDEK ::
  "(string \<Rightarrow> js_error + bytes) \<Rightarrow> (bytes \<Rightarrow> bytes \<Rightarrow> bytes \<Rightarrow> bytes \<Rightarrow> js_error + bytes option)
     \<Rightarrow> WrappedDEK \<Rightarrow> bytes \<Rightarrow> js_error + bytes" where
  "unwrapDEK decodeBase64 box_open wrapped recipientPrivateKey =
     (case decodeBase64 (ciphertext wrapped) of
        Inl e \<Rightarrow> Inl e
      | Inr ct \<Rightarrow>
          (case decodeBase64 (ephemeralPublicKey wrapped) of
             Inl e \<Rightarrow> Inl e
           | Inr ephemeralPubKey \<Rightarrow>
               (case decodeBase64 (nonce wrapped) of
                  Inl e \<Rightarrow> Inl e
                | Inr n \<Rightarrow>
                    (case box_open ct n ephemeralPubKey recipientPrivateKey of
                       Inl e \<Rightarrow> Inl e
                     | Inr None \<Rightarrow> Inl DEK_UNWRAP_FAILED
                     | Inr (Some dek) \<Rightarrow> Inr dek))))"

text \<open>
  A reference model of \<^verbatim>\<open>decodeBase64\<close> as tweetnacl-util defines it: the text is first
  matched against the regular expression
  \<^verbatim>\<open>^(?:[A-Za-z0-9+\/]{2}[A-Za-z0-9+\/]{2})*(?:[A-Za-z0-9+\/]{2}==|[A-Za-z0-9+\/]{3}=)?$\<close>,
  a \<^verbatim>\<open>TypeError('invalid encoding')\<close> being thrown when it does not match, and then
  decoded, four characters to three bytes.
\<close>

definition b64alphabet :: string where
  "b64alphabet = ''ABCDEFGHIJKLMNOPQRSTUVWXYZabcdefghijklmnopqrstuvwxyz0123456789+/''"

fun index_in :: "'a list \<Rightarrow> 'a \<Rightarrow> nat option" where
  "index_in [] c = None"
| "index_in (x # xs) c = (if x = c then Some 0 else map_option Suc (index_in xs c))"

definition is64 :: "char \<Rightarrow> bool" where
  "is64 c = (index_in b64alphabet c \<noteq> None)"

definition b64num :: "char \<Rightarrow> nat" where
  "b64num c = (case index_in b64alphabet c of None \<Rightarrow> 0 | Some n \<Rightarrow> n)"

fun validateBase64 :: "string \<Rightarrow> bool" where
  "validateBase64 [] = True"
| "validateBase64 [a, b, c, d] =
     (is64 a \<and> is64 b \<and>
      ((is64 c \<and> is64 d) \<or> (c = CHR ''='' \<and> d = CHR ''='') \<or> (is64 c \<and> d = CHR ''='')))"
| "validateBase64 (a # b # c # d # rest) =
     (is64 a \<and> is64 b \<and> is64 c \<and> is64 d \<and> validateBase64 rest)"
| "validateBase64 s = False"

fun b64bytes :: "string \<Rightarrow> bytes" where
  "b64bytes (a # b # c # d # rest) =
     (if c = CHR ''='' then [b64num a * 4 + b64num b div 16]
      else if d = CHR ''='' then
        [b64num a * 4 + b64num b div 16, (b64num b mod 16) * 16 + b64num c div 4]
      else
        [b64num a * 4 + b64num b div 16, (b64num b mod 16) * 16 + b64num c div 4,
         (b64num c mod 4) * 64 + b64num d] @ b64bytes rest)"
| "b64bytes s = []"

definition naclUtil_decodeBase64 :: "string \<Rightarrow> js_error + bytes" where
  "naclUtil_decodeBase64 s =
     (if validateBase64 s then Inr (b64bytes s) else Inl (TypeError ''invalid encoding''))"

text \<open>
  A stand-in for \<^verbatim>\<open>nacl.box.open\<close> in the examples: it checks the nonce size as the
  library does, and then opens the box exactly for the key \<open>[7, 7]\<close>.
\<close>

definition box1 :: "bytes \<Rightarrow> bytes \<Rightarrow> bytes \<Rightarrow> bytes \<Rightarrow> js_error + bytes option" where
  "box1 ct n pk sk =
     (if length n \<noteq> 24 then Inl (Error ''bad nonce size'')
      else if sk = [7, 7] then Inr (Some ct) else Inr None)"

definition wrapped1 :: WrappedDEK where
  "wrapped1 = \<lparr> ciphertext = ''AQIDBAUG'', ephemeralPublicKey = ''CQk='',
                nonce = ''AAAAAAAAAAAAAAAAAAAAAAAAAAAAAAAA'' \<rparr>"

section \<open>Verifying the signature of a token\<close>

text \<open>
  \<^verbatim>\<open>verifyTokenSignature(token, issuerPublicKey)\<close>. The spread \<^verbatim>\<open>{ ...token }\<close> allocates a
  new object with the token's properties, at the next free address; the two \<^verbatim>\<open>delete\<close>
  statements write to that object. \<open>stringify\<close> (\<^verbatim>\<open>JSON.stringify\<close>), \<open>decodeBase64\<close>,
  \<open>encode\<close> (\<^verbatim>\<open>TextEncoder.encode\<close>) and \<open>verify\<close> (\<^verbatim>\<open>nacl.sign.detached.verify\<close>, which
  throws on a signature or key of the wrong size) are library functions. An absent
  \<open>sig\<close> reaches the decoder as \<^verbatim>\<open>undefined\<close>, which its regular expression reads as the
  text \<open>undefined\<close>.
\<close>

definition verifyTokenSignature ::
  "(CapabilityToken \<Rightarrow> string) \<Rightarrow> (string \<Rightarrow> js_error + bytes) \<Rightarrow> (string \<Rightarrow> bytes)
     \<Rightarrow> (bytes \<Rightarrow> bytes \<Rightarrow> bytes \<Rightarrow> js_error + bool)
     \<Rightarrow> heap \<Rightarrow> addr \<Rightarrow> bytes \<Rightarrow> (js_error + bool) \<times> heap" where
  "verifyTokenSignature stringify decodeBase64 encode verify h token issuerPublicKey =
     (let payload = length h;
          h1 = h @ [h ! token];
          h2 = h1[payload := (h1 ! payload)\<lparr> ct_sig := None \<rparr>];
          h3 = h2[payload := (h2 ! payload)\<lparr> ct_sigAlg := None \<rparr>];
          message = stringify (h3 ! payload)
      in case decodeBase64 (case ct_sig (h3 ! token) of None \<Rightarrow> ''undefined'' | Some s \<Rightarrow> s) of
           Inl e \<Rightarrow> (Inl e, h3)
         | Inr signature \<Rightarrow>
             (let messageBytes = encode message
              in (verify messageBytes signature issuerPublicKey, h3)))"

text \<open>
  Stand-ins for the examples: a serialiser that writes the id, the subject and whether a
  signature is present, and a verifier that accepts the signature \<open>[0, 0, 0]\<close> on every
  message.
\<close>

definition stringifyToken1 :: "CapabilityToken \<Rightarrow> string" where
  "stringifyToken1 t = ct_id t @ ''|'' @ ct_sub t @ ''|'' @ (case ct_sig t of None \<Rightarrow> '''' | Some s \<Rightarrow> s)"

definition verify1 :: "bytes \<Rightarrow> bytes \<Rightarrow> bytes \<Rightarrow> js_error + bool" where
  "verify1 msg signature pk = Inr (signature = [0, 0, 0])"

section \<open>Running an agent\<close>

text \<open>
  \<^verbatim>\<open>parseDuration(str)\<close>: one or more decimal digits followed by \<^verbatim>\<open>h\<close>, \<^verbatim>\<open>m\<close> or \<^verbatim>\<open>s\<close>
  (the regular expression \<^verbatim>\<open>^(\d+)(h|m|s)$\<close>); one hour for everything else, an absent
  or empty string included.
\<close>

definition isDigit :: "char \<Rightarrow> bool" where
  "isDigit c = (c \<in> set ''0123456789'')"

definition parseInt :: "string \<Rightarrow> int" where
  "parseInt ds =
     foldl (\<lambda>n c. 10 * n + (case index_in ''0123456789'' c of None \<Rightarrow> 0 | Some k \<Rightarrow> int k)) 0 ds"

definition parseDuration :: "string option \<Rightarrow> int" where
  "parseDuration str =
     (case str of
        None \<Rightarrow> 3600000
      | Some s \<Rightarrow>
          if s = [] then 3600000
          else
            (let n = butlast s; unit = last s
             in if n \<noteq> [] \<and> list_all isDigit n \<and> unit \<in> set ''hms''
                then parseInt n * (if unit = CHR ''h'' then 3600000
                                   else if unit = CHR ''m'' then 60000 else 1000)
                else 3600000))"

text \<open>JavaScript truthiness, \<^verbatim>\<open>a || b\<close> and the optional chain \<^verbatim>\<open>x?.k\<close>.\<close>

fun truthy :: "jsval \<Rightarrow> bool" where
  "truthy JUndefined = False"
| "truthy JNull = False"
| "truthy (JBool b) = b"
| "truthy (JNum n) = (n \<noteq> 0)"
| "truthy (JStr s) = (s \<noteq> [])"
| "truthy (JArr xs) = True"
| "truthy (JObj ps) = True"

definition js_or :: "jsval \<Rightarrow> jsval \<Rightarrow> jsval" where
  "js_or a b = (if truthy a then a else b)"

definition optProp :: "jsval \<Rightarrow> string \<Rightarrow> jsval" where
  "optProp x k = (case getProp x k of None \<Rightarrow> JUndefined | Some y \<Rightarrow> y)"

text \<open>
  The wallet extension, \<^verbatim>\<open>window.__proofi_extension__\<close> (\<open>None\<close> when it is not injected),
  and \<^verbatim>\<open>getWalletState()\<close>. \<open>signMessage\<close> is absent or a function that resolves to a
  string; \<open>None\<close> as its result is a rejected promise.
\<close>

record extension =
  connected :: bool
  address :: jsval
  email :: jsval
  signMessage :: "(jsval \<Rightarrow> string option) option"

record wallet =
  w_address :: jsval
  w_email :: jsval

definition getWalletState :: "extension option \<Rightarrow> wallet option" where
  "getWalletState ext =
     (case ext of
        None \<Rightarrow> None
      | Some x \<Rightarrow> if \<not> connected x then None
                  else Some \<lparr> w_address = address x, w_email = email x \<rparr>)"

text \<open>
  What one run of \<^verbatim>\<open>executeAgent\<close> reads from its environment: the extension, the
  clock (the \<open>k\<close>-th reading of the run), the two random strings of the token, and the
  body of the agent API's response (\<open>None\<close> when \<^verbatim>\<open>fetch\<close> or \<^verbatim>\<open>res.json()\<close> rejects).
\<close>

record run_env =
  ext :: "extension option"
  clock :: "nat \<Rightarrow> int"
  rndTokenId :: string
  rndAgentKey :: string
  fetched :: "jsval option"

record agentMeta =
  meta_id :: string
  requiredData :: "string list"
  optionalData :: "string list"
  accessDuration :: "string option"
  version :: string
  apiRoute :: string

text \<open>What \<^verbatim>\<open>executeAgent\<close> returns: the response, and the \<open>audit\<close> object added to it.\<close>

record agent_result =
  response :: jsval
  audit_tokenId :: string
  audit_entries :: nat
  audit_chainValid :: bool
  audit_signed :: bool

definition insightCount :: "jsval \<Rightarrow> jsval" where
  "insightCount result =
     js_or (optProp (optProp (optProp result ''insights'') ''insights'') ''length'')
       (js_or (optProp (optProp (optProp result ''analysis'') ''trends'') ''length'')
          (js_or (optProp (optProp (optProp result ''brief'') ''wins'') ''length'') (JNum 0)))"

definition scoresOf :: "jsval \<Rightarrow> jsval" where
  "scoresOf result =
     js_or (optProp (optProp result ''insights'') ''scores'')
       (js_or (optProp (optProp result ''brief'') ''scores'') JNull)"

text \<open>
  Step 7 of \<^verbatim>\<open>executeAgent\<close>: with a connected wallet that offers \<^verbatim>\<open>signMessage\<close>, the
  last hash is signed and the signature logged; a rejection is caught. The result is the
  value of the variable \<open>signature\<close> (\<open>None\<close> for \<^verbatim>\<open>null\<close>).
\<close>

definition signChain ::
  "(jsval \<Rightarrow> string) \<Rightarrow> (string \<Rightarrow> string) \<Rightarrow> run_env \<Rightarrow> wallet option \<Rightarrow> sdk \<Rightarrow> string option \<times> sdk" where
  "signChain stringify digest env wal st =
     (case wal of
        None \<Rightarrow> (None, st)
      | Some w \<Rightarrow>
          (case ext env of
             None \<Rightarrow> (None, st)
           | Some x \<Rightarrow>
               (case signMessage x of
                  None \<Rightarrow> (None, st)
                | Some sign \<Rightarrow>
                    (let chainHash = entryProp (last (auditChain st)) ''hash''
                     in case sign chainHash of
                          None \<Rightarrow> (None, st)
                        | Some sg \<Rightarrow>
                            (Some sg,
                             snd (addAuditEntry stringify digest (clock env 7) (JStr ''CHAIN_SIGNED'')
                                    (JObj [(''signature'', JStr (take 20 sg @ ''...'')),
                                           (''signer'', w_address w)]) st))))))"

text \<open>
  \<^verbatim>\<open>executeAgent(agentMeta, healthData, goals, ollamaEndpoint)\<close>. \<open>healthData\<close> is an object
  of arrays; the request that carries \<open>goals\<close> to the endpoint is the environment's, and
  only its response enters. \<open>toISO\<close> is \<^verbatim>\<open>toISOString\<close>. The result is \<open>None\<close> when the run
  ends with an exception (the RangeError of \<^verbatim>\<open>createAccessToken\<close>, a failed request, a
  \<^verbatim>\<open>null\<close> response); the state is returned as the run leaves it in every case.
\<close>

definition executeAgent ::
  "(jsval \<Rightarrow> string) \<Rightarrow> (string \<Rightarrow> string) \<Rightarrow> (int \<Rightarrow> string) \<Rightarrow> run_env \<Rightarrow> agentMeta
     \<Rightarrow> (string \<times> jsval list) list \<Rightarrow> sdk \<Rightarrow> agent_result option \<times> sdk" where
  "executeAgent stringify digest toISO env meta healthData st =
     (let wal = getWalletState (ext env);
          st1 = snd (addAuditEntry stringify digest (clock env 0) (JStr ''WALLET_CONNECTED'')
                  (JObj [(''walletAddress'',
                            js_or (case wal of None \<Rightarrow> JUndefined | Some w \<Rightarrow> w_address w)
                              (JStr ''local'')),
                         (''extensionConnected'', JBool (wal \<noteq> None))]) st);
          scs = map (\<lambda>d. ''health/'' @ d @ ''/*'') (requiredData meta)
                @ map (\<lambda>d. ''health/'' @ d @ ''/*'') (optionalData meta);
          durationMs = parseDuration (accessDuration meta)
      in case createAccessToken (rndTokenId env) (rndAgentKey env) (clock env 1) (clock env 2)
                (meta_id meta) scs durationMs st1 of
           None \<Rightarrow> (None, st1)
         | Some (tok, st2) \<Rightarrow>
             (let st3 = snd (addAuditEntry stringify digest (clock env 3) (JStr ''TOKEN_CREATED'')
                          (JObj [(''tokenId'', JStr (tokenId tok)),
                                 (''agentId'', JStr (meta_id meta)),
                                 (''scopes'', JArr (map JStr (scopes tok))),
                                 (''expiresAt'', JStr (toISO (expiresAt tok))),
                                 (''agentKey'', JStr (agentKey tok))]) st2);
                  totalRecords = foldl (\<lambda>s a. s + int (length a)) 0 (map snd healthData);
                  st4 = snd (addAuditEntry stringify digest (clock env 4) (JStr ''AGENT_EXECUTED'')
                          (JObj [(''tokenId'', JStr (tokenId tok)),
                                 (''agentId'', JStr (meta_id meta)),
                                 (''agentVersion'', JStr (version meta)),
                                 (''recordsAnalyzed'', JNum totalRecords),
                                 (''processingLocation'', JStr ''local''),
                                 (''model'', JStr ''ollama/llama3.2'')]) st3)
              in case fetched env of
                   None \<Rightarrow> (None, st4)
                 | Some result \<Rightarrow>
                     (case getProp result ''processingTime'' of
                        None \<Rightarrow> (None, st4)
                      | Some processingTime \<Rightarrow>
                          (let st5 = snd (addAuditEntry stringify digest (clock env 5)
                                       (JStr ''ANALYSIS_COMPLETE'')
                                       (JObj [(''tokenId'', JStr (tokenId tok)),
                                              (''agentId'', JStr (meta_id meta)),
                                              (''processingTime'', processingTime),
                                              (''insightCount'', insightCount result),
                                              (''scores'', scoresOf result)]) st4);
                               st6 = revokeToken st5 (tokenId tok);
                               st7 = snd (addAuditEntry stringify digest (clock env 6)
                                       (JStr ''TOKEN_REVOKED'')
                                       (JObj [(''tokenId'', JStr (tokenId tok)),
                                              (''reason'', JStr ''analysis_complete'')]) st6);
                               signed = signChain stringify digest env wal st7;
                               signature = fst signed;
                               st8 = snd signed
                           in (Some \<lparr> response = result,
                                      audit_tokenId = tokenId tok,
                                      audit_entries = length (auditChain st8),
                                      audit_chainValid =
                                        (case verifyChain stringify digest st8 of
                                           ChainValid n \<Rightarrow> True | ChainBroken i r \<Rightarrow> False),
                                      audit_signed =
                                        (case signature of None \<Rightarrow> False | Some sg \<Rightarrow> sg \<noteq> []) \<rparr>,
                               st8)))))"

text \<open>An agent, an environment without wallet, and a response for the examples.\<close>

definition meta1 :: agentMeta where
  "meta1 = \<lparr> meta_id = ''proofi-trend-predictor'', requiredData = [''sleep''],
             optionalData = [''hrv''], accessDuration = Some ''1h'', version = ''1.0.0'',
             apiRoute = ''trend'' \<rparr>"

definition env1 :: run_env where
  "env1 = \<lparr> ext = None, clock = (\<lambda>k. 1000 + int k), rndTokenId = ''dG9rZW4='',
            rndAgentKey = ''a2V5'', fetched = Some (JObj [(''processingTime'', JNum 42)]) \<rparr>"

section \<open>The grant validator\<close>

text \<open>
  Modelled from the spec: the reasons for which the grant validator rejects a grant. The
  validator that the agent's server calls on a parsed token, \<^verbatim>\<open>validateToken\<close> of the agent
  SDK, is missing: the repository's sources hold the declaration of the token
  (\<^verbatim>\<open>CapabilityToken\<close>) and the call, not the function.
\<close>

datatype RejectionReason = WrongSubject | Expired | BadSignature | ScopeDenied

text \<open>
  Modelled from the spec: scope well-formedness, the fourth check of the validator. Every
  scope path is non-empty and every permission is one of \<open>read\<close> and \<open>write\<close>.
\<close>

definition wellFormedScopes :: "scope list \<Rightarrow> bool" where
  "wellFormedScopes scs =
     list_all (\<lambda>sc. path sc \<noteq> [] \<and> list_all (\<lambda>p. p = ''read'' \<or> p = ''write'') (permissions sc)) scs"

text \<open>
  Modelled from the spec: the checks of \<^verbatim>\<open>validate(grant, now, agentPublicKey)\<close>, in their
  order, each with the reason reported when it fails: the subject of the grant is the
  agent's public key; \<open>now\<close> is before the expiry (both in Unix seconds); the signature, if
  there is one, verifies (\<open>verifies\<close> stands for the check against the issuer's public key,
  which a collaborator supplies); the scopes are well-formed. The component design names
  no reason for the fourth check; \<open>ScopeDenied\<close> is the remaining reason of the error
  taxonomy. The grant is the \<^verbatim>\<open>CapabilityToken\<close> that the sources declare, with \<open>sub\<close> and
  \<open>exp\<close> for the subject and the expiry.
\<close>

definition grant_checks ::
  "(CapabilityToken \<Rightarrow> bool) \<Rightarrow> CapabilityToken \<Rightarrow> int \<Rightarrow> string \<Rightarrow> (bool \<times> RejectionReason) list" where
  "grant_checks verifies grant now agentPublicKey =
     [(ct_sub grant = agentPublicKey, WrongSubject),
      (now < ct_exp grant, Expired),
      (ct_sig grant = None \<or> verifies grant, BadSignature),
      (wellFormedScopes (ct_scopes grant), ScopeDenied)]"

text \<open>
  Modelled from the spec: the first failure short-circuits and is what gets reported; a
  grant that passes every check is returned as valid.
\<close>

fun first_failure :: "(bool \<times> 'r) list \<Rightarrow> 'r option" where
  "first_failure [] = None"
| "first_failure (c # cs) = (if fst c then first_failure cs else Some (snd c))"

definition validate ::
  "(CapabilityToken \<Rightarrow> bool) \<Rightarrow> CapabilityToken \<Rightarrow> int \<Rightarrow> string \<Rightarrow> RejectionReason + CapabilityToken" where
  "validate verifies grant now agentPublicKey =
     (case first_failure (grant_checks verifies grant now agentPublicKey) of
        None \<Rightarrow> Inr grant
      | Some reason \<Rightarrow> Inl reason)"

section \<open>Encrypting and decrypting a payload\<close>

text \<open>
  AES-256-GCM itself is computed by the platform (\<^verbatim>\<open>crypto.subtle\<close> in the browser, the
  \<^verbatim>\<open>crypto\<close> module of Node in the agent) and is a parameter, in two functions on the raw
  key: \<open>gcm_encrypt key iv plaintext\<close> gives the encrypted data and the authentication tag,
  and \<open>gcm_decrypt key iv encryptedData authTag\<close> gives the plaintext, or (\<open>Inl\<close>) the exception
  thrown when the tag does not authenticate the data under the key or when a parameter is
  malformed.
\<close>

type_synonym gcm_enc = "bytes \<Rightarrow> bytes \<Rightarrow> bytes \<Rightarrow> bytes \<times> bytes"

text \<open>
  A \<^verbatim>\<open>CryptoKey\<close> of the browser: the raw key and the operations it may be used for
  (the key that \<^verbatim>\<open>deriveKey\<close> makes has the usage \<open>decrypt\<close> only).
\<close>

record CryptoKey =
  raw :: bytes
  usages :: "string list"

text \<open>
  \<^verbatim>\<open>crypto.subtle.encrypt({ name: 'AES-GCM', iv }, key, data)\<close> and
  \<^verbatim>\<open>crypto.subtle.decrypt\<close>, with the default tag of 128 bits: the buffer that encryption
  returns is the encrypted data followed by the tag, and decryption takes the last 16
  bytes of its buffer as the tag. A key without the usage is refused, and so is a buffer
  shorter than a tag.
\<close>

definition sealed :: "gcm_enc \<Rightarrow> bytes \<Rightarrow> bytes \<Rightarrow> bytes \<Rightarrow> bytes" where
  "sealed gcm_encrypt key iv plaintext =
     fst (gcm_encrypt key iv plaintext) @ snd (gcm_encrypt key iv plaintext)"

definition InvalidAccessError :: js_error where
  "InvalidAccessError = Error ''InvalidAccessError''"


definition subtle_encrypt :: "gcm_enc \<Rightarrow> CryptoKey \<Rightarrow> bytes \<Rightarrow> bytes \<Rightarrow> js_error + bytes" where
  "subtle_encrypt gcm_encrypt key iv plaintext =
     (if ''encrypt'' \<notin> set (usages key) then Inl InvalidAccessError
      else Inr (sealed gcm_encrypt (raw key) iv plaintext))"


text \<open>The object that \<^verbatim>\<open>encryptData\<close> serialises.\<close>

definition envelope :: "string \<Rightarrow> string \<Rightarrow> jsval" where
  "envelope ctB64 ivB64 =
     JObj [(''ciphertext'', JStr ctB64), (''iv'', JStr ivB64), (''algorithm'', JStr ''AES-256-GCM'')]"

text \<open>
  \<^verbatim>\<open>encryptData(data, key)\<close>. \<open>iv\<close> is the reading of
  \<^verbatim>\<open>crypto.getRandomValues(new Uint8Array(12))\<close>; \<open>stringify\<close> is \<^verbatim>\<open>JSON.stringify\<close>,
  \<open>btoa_bytes\<close> is \<^verbatim>\<open>btoa(String.fromCharCode(...bytes))\<close> and \<open>encode\<close> is
  \<^verbatim>\<open>TextEncoder.encode\<close>. Data that is not a string is serialised first;
  \<^verbatim>\<open>JSON.stringify(undefined)\<close> is \<^verbatim>\<open>undefined\<close>, which the encoder reads as the empty text.
\<close>

definition encryptData ::
  "(jsval \<Rightarrow> string) \<Rightarrow> (bytes \<Rightarrow> string) \<Rightarrow> (string \<Rightarrow> bytes) \<Rightarrow> gcm_enc
     \<Rightarrow> bytes \<Rightarrow> jsval \<Rightarrow> CryptoKey \<Rightarrow> js_error + string" where
  "encryptData stringify btoa_bytes encode gcm_encrypt iv data key =
     (case subtle_encrypt gcm_encrypt key iv
             (encode (case data of JStr s \<Rightarrow> s | JUndefined \<Rightarrow> [] | _ \<Rightarrow> stringify data)) of
        Inl e \<Rightarrow> Inl e
      | Inr encrypted \<Rightarrow> Inr (stringify (envelope (btoa_bytes encrypted) (btoa_bytes iv))))"
















section \<open>Properties of the scope matchers\<close>

lemma startsWith_iff: "startsWith s p \<longleftrightarrow> (\<exists>r. s = p @ r)"
  unfolding startsWith_def
  by (metis append_eq_conv_conj append_take_drop_id)

lemma endsWith_iff: "endsWith s p \<longleftrightarrow> (\<exists>q. s = q @ p)"
proof
  assume "endsWith s p"
  then have "s = take (length s - length p) s @ p"
    unfolding endsWith_def by (metis append_take_drop_id)
  then show "\<exists>q. s = q @ p" ..
next
  assume "\<exists>q. s = q @ p"
  then show "endsWith s p"
    unfolding endsWith_def by auto
qed

lemma matchScope_iff:
  "matchScope pattern required \<longleftrightarrow>
     pattern = required \<or> (\<exists>q r. pattern = q @ ''/*'' \<and> required = q @ r)"
proof -
  have "endsWith pattern ''/*'' \<and> startsWith required (slice_end pattern 2)
          \<longleftrightarrow> (\<exists>q r. pattern = q @ ''/*'' \<and> required = q @ r)"
    unfolding endsWith_iff startsWith_iff slice_end_def by auto
  then show ?thesis
    unfolding matchScope_def Let_def by auto
qed

text \<open>
  Claim C1. The specification's three examples of the scope matcher: a wildcard scope
  grants a child path, two different exact paths do not match, and a wildcard scope must
  not grant its own bare prefix. \<^verbatim>\<open>matchScope\<close> cuts both the star and the slash off the
  pattern before the prefix test, so the third example (and every path that merely
  starts with the same letters) is granted.
\<close>

theorem matchScope_grants_bare_prefix:
  "matchScope ''health/*'' ''health/steps'' = True
   \<and> matchScope ''health/steps'' ''health/sleep'' = False
   \<and> matchScope ''health/*'' ''health'' = True
   \<and> matchScope ''health/*'' ''healthcare/records'' = True"
  by (simp add: matchScope_def endsWith_def startsWith_def slice_end_def)

lemma hasScope_examples:
  "fst (hasScope [demo_token [\<lparr> path = ''health/*'', permissions = [''read''] \<rparr>]] 0 ''health/steps'' ''read'') = False
   \<and> fst (hasScope [demo_token [\<lparr> path = ''health/*'', permissions = [''read''] \<rparr>]] 0 ''health'' ''read'') = True
   \<and> fst (hasScope [demo_token [\<lparr> path = ''health/steps'', permissions = [''read''] \<rparr>]] 0 ''steps'' ''read'') = True"
  by (simp add: hasScope_def demo_token_def startsWith_def)

section \<open>Token validation\<close>

text \<open>
  The wallet-side \<^verbatim>\<open>validateToken(tokenId, requiredScope)\<close> is a lookup in the registry of
  the tokens that this wallet created: it takes no agent identity. Its checks are, in
  this order, the lookup of the token id, revocation, expiry and scope, the first failure
  being the one reported, and the verdict does not depend on the agent the token names.
\<close>

lemma validateToken_check_order:
  "(tokens st tid = None \<longrightarrow> fst (validateToken st now tid req) = Invalid ''Token not found'')
   \<and> (tokens st tid = Some tok \<and> revoked tok \<longrightarrow>
        fst (validateToken st now tid req) = Invalid ''Token revoked'')
   \<and> (tokens st tid = Some tok \<and> \<not> revoked tok \<and> expiresAt tok < now \<longrightarrow>
        fst (validateToken st now tid req) = Invalid ''Token expired'')
   \<and> rejection (fst (validateToken (st\<lparr> tokens := (tokens st)(tid \<mapsto> tok\<lparr> agentId := a, agentKey := k \<rparr>) \<rparr>) now tid req))
       = rejection (fst (validateToken (st\<lparr> tokens := (tokens st)(tid \<mapsto> tok) \<rparr>) now tid req))"
  by (auto simp: validateToken_def split: option.splits)

text \<open>
  The agent-side validator. A grant passes exactly when all four checks hold, and each
  rejection is reported exactly when its check is the first to fail.
\<close>

lemma validate_outcomes:
  "(validate verifies grant now pk = Inr g) =
     (g = grant \<and> ct_sub grant = pk \<and> now < ct_exp grant
      \<and> (ct_sig grant = None \<or> verifies grant) \<and> wellFormedScopes (ct_scopes grant))"
  "(validate verifies grant now pk = Inl Expired) = (ct_sub grant = pk \<and> \<not> now < ct_exp grant)"
  "(validate verifies grant now pk = Inl BadSignature) =
     (ct_sub grant = pk \<and> now < ct_exp grant \<and> ct_sig grant \<noteq> None \<and> \<not> verifies grant)"
  "(validate verifies grant now pk = Inl ScopeDenied) =
     (ct_sub grant = pk \<and> now < ct_exp grant \<and> (ct_sig grant = None \<or> verifies grant)
      \<and> \<not> wellFormedScopes (ct_scopes grant))"
  by (auto simp: validate_def grant_checks_def)

text \<open>
  Claim C2. For every grant whose subject differs from the agent's public key,
  \<^verbatim>\<open>validate\<close> returns the rejection \<open>WrongSubject\<close>, whatever the expiry, the signature and
  the scopes of the grant, the time and the outcome of the signature check: the subject
  check comes first and no later check is consulted.
\<close>

theorem validate_wrong_subject:
  assumes "ct_sub grant \<noteq> agentPublicKey"
  shows "validate verifies grant now agentPublicKey = Inl WrongSubject"
  using assms by (simp add: validate_def grant_checks_def)

theorem validate_wrong_subject_witness:
  "ct_sub (demo_token [\<lparr> path = ''health/metrics'', permissions = [''read''] \<rparr>]) \<noteq> ''agent-B''
   \<and> validate (\<lambda>g. True) (demo_token [\<lparr> path = ''health/metrics'', permissions = [''read''] \<rparr>])
        2800 ''agent-B'' = Inl WrongSubject
   \<and> validate (\<lambda>g. True) (demo_token [\<lparr> path = ''health/metrics'', permissions = [''read''] \<rparr>])
        2800 ''agent-pk''
       = Inr (demo_token [\<lparr> path = ''health/metrics'', permissions = [''read''] \<rparr>])
   \<and> validate (\<lambda>g. False) (demo_token [\<lparr> path = '''', permissions = [''admin''] \<rparr>])
        9999 ''agent-B'' = Inl WrongSubject"
  using validate_wrong_subject [where grant = "demo_token [\<lparr> path = ''health/metrics'', permissions = [''read''] \<rparr>]"
      and agentPublicKey = "''agent-B''" and verifies = "\<lambda>g. True" and now = 2800]
    validate_wrong_subject [where grant = "demo_token [\<lparr> path = '''', permissions = [''admin''] \<rparr>]"
      and agentPublicKey = "''agent-B''" and verifies = "\<lambda>g. False" and now = 9999]
  by (simp add: demo_token_def validate_def grant_checks_def wellFormedScopes_def)

text \<open>
  Claim C6, as the code has it. Both expiry checks are strict: \<^verbatim>\<open>isTokenExpired\<close> holds
  exactly when \<open>exp\<close> is earlier than the current second, and \<^verbatim>\<open>validateToken\<close> reports
  \<open>Token expired\<close> exactly for a registered, unrevoked token whose expiry is earlier than
  now. A token whose expiry equals the current time passes the time check.
\<close>

theorem expiry_is_strict:
  "(ct_exp (h ! token) < nowMs div 1000 \<longrightarrow> fst (isTokenExpired h token nowMs))
   \<and> (nowMs div 1000 \<le> ct_exp (h ! token) \<longrightarrow> \<not> fst (isTokenExpired h token nowMs))
   \<and> (fst (validateToken st now tid req) = Invalid ''Token expired''
        \<longleftrightarrow> (\<exists>tok. tokens st tid = Some tok \<and> \<not> revoked tok \<and> expiresAt tok < now))"
  by (auto simp: isTokenExpired_def validateToken_def split: option.splits)

theorem expiry_is_strict_witness:
  "ct_exp ([demo_token []] ! 0) < 4601000 div 1000 \<and> fst (isTokenExpired [demo_token []] 0 4601000)
   \<and> 4600999 div 1000 \<le> ct_exp ([demo_token []] ! 0) \<and> \<not> fst (isTokenExpired [demo_token []] 0 4600999)
   \<and> fst (validateToken sdkA 9001 ''t1'' None) = Invalid ''Token expired''
   \<and> (\<exists>tok. tokens sdkA ''t1'' = Some tok \<and> \<not> revoked tok \<and> expiresAt tok < 9001)"
  using expiry_is_strict [where h = "[demo_token []]" and token = 0 and nowMs = 4601000
      and st = sdkA and now = 9001 and tid = "''t1''" and req = None]
    expiry_is_strict [where h = "[demo_token []]" and token = 0 and nowMs = 4600999
      and st = sdkA and now = 9001 and tid = "''t1''" and req = None]
  by (simp add: demo_token_def sdkA_def tokA_def validateToken_def)

text \<open>
  The claim as stated fails at the boundary: a token whose expiry equals now is accepted
  by both checks; and a revoked token is reported as revoked, not as expired.
\<close>

theorem expiry_equal_now_accepted:
  "ct_exp ([demo_token []] ! 0) \<le> 4600999 div 1000
   \<and> fst (isTokenExpired [demo_token []] 0 4600999) = False
   \<and> expiresAt tokA \<le> 9000
   \<and> fst (validateToken sdkA 9000 ''t1'' None) = Valid tokA
   \<and> fst (validateToken (revokeToken sdkA ''t1'') 99999 ''t1'' None) = Invalid ''Token revoked''"
  by (simp add: demo_token_def isTokenExpired_def sdkA_def tokA_def validateToken_def
      revokeToken_def)

section \<open>The keypair store\<close>

lemma keypair_file_log_line [simp]: "keypair_file (log_line msg fs) = keypair_file fs"
  by (simp add: log_line_def)

lemma keypair_file_saveKeypair:
  "keypair_file (saveKeypair enc str nowIso kp fs)
     = Some (str (JObj [(''publicKey'', JStr (enc (publicKey kp))),
                        (''privateKey'', JStr (enc (privateKey kp))),
                        (''createdAt'', JStr nowIso),
                        (''algorithm'', JStr ''X25519'')]))"
  by (simp add: saveKeypair_def Let_def)

text \<open>
  Claim C3, as the code has it. \<^verbatim>\<open>getOrCreateKeypair\<close> returns the stored keypair, and
  leaves the file as it is, exactly when the file exists and decodes. When the file is
  absent, and equally when it exists but cannot be decoded, the freshly generated keypair
  is returned and written to the file; in the second case the old content is
  overwritten, after one line on the error console.
\<close>

theorem getOrCreateKeypair_regenerates:
  "(keypair_file fs = Some content \<and> decodeStored parse dec content = Some kp \<longrightarrow>
      fst (getOrCreateKeypair parse dec enc str fresh nowIso fs) = kp
      \<and> keypair_file (snd (getOrCreateKeypair parse dec enc str fresh nowIso fs)) = Some content)
   \<and> (keypair_file fs = None
        \<or> (keypair_file fs = Some content \<and> decodeStored parse dec content = None) \<longrightarrow>
      fst (getOrCreateKeypair parse dec enc str fresh nowIso fs) = fresh
      \<and> keypair_file (snd (getOrCreateKeypair parse dec enc str fresh nowIso fs))
          = keypair_file (saveKeypair enc str nowIso fresh fs))
   \<and> (keypair_file fs = Some content \<and> decodeStored parse dec content = None \<longrightarrow>
      ''[keys] Failed to load keypair''
        \<in> set (console (snd (getOrCreateKeypair parse dec enc str fresh nowIso fs))))"
  by (auto simp: getOrCreateKeypair_def loadKeypair_def Let_def keypair_file_saveKeypair
      saveKeypair_def ensureKeysDir_def log_line_def)

theorem getOrCreateKeypair_regenerates_witness:
  "keypair_file (corruptFs\<lparr> keypair_file := Some ''{good}'' \<rparr>) = Some ''{good}''
   \<and> decodeStored parse1 decode1 ''{good}'' = Some \<lparr> publicKey = [1, 2], privateKey = [3, 4] \<rparr>
   \<and> getOrCreateKeypair parse1 decode1 encode1 stringify1 freshKeypair ''2024-03-01''
        (corruptFs\<lparr> keypair_file := Some ''{good}'' \<rparr>)
      = (\<lparr> publicKey = [1, 2], privateKey = [3, 4] \<rparr>,
         \<lparr> keys_dir = True, keypair_file = Some ''{good}'',
           console = [''[keys] Loaded existing keypair''] \<rparr>)
   \<and> keypair_file (corruptFs\<lparr> keypair_file := None \<rparr>) = None
   \<and> fst (getOrCreateKeypair parse1 decode1 encode1 stringify1 freshKeypair ''2024-03-01''
        (corruptFs\<lparr> keypair_file := None \<rparr>)) = freshKeypair
   \<and> keypair_file (snd (getOrCreateKeypair parse1 decode1 encode1 stringify1 freshKeypair ''2024-03-01''
        (corruptFs\<lparr> keypair_file := None \<rparr>))) = Some ''{pk:BQY=}''
   \<and> keypair_file corruptFs = Some ''{ publicKey: AQ''
   \<and> decodeStored parse1 decode1 ''{ publicKey: AQ'' = None
   \<and> fst (getOrCreateKeypair parse1 decode1 encode1 stringify1 freshKeypair ''2024-03-01'' corruptFs)
       = freshKeypair
   \<and> ''[keys] Failed to load keypair''
       \<in> set (console (snd (getOrCreateKeypair parse1 decode1 encode1 stringify1 freshKeypair
                ''2024-03-01'' corruptFs)))"
  using getOrCreateKeypair_regenerates [where fs = corruptFs
      and content = "''{ publicKey: AQ''" and parse = parse1 and dec = decode1
      and enc = encode1 and str = stringify1 and fresh = freshKeypair and nowIso = "''2024-03-01''"]
    getOrCreateKeypair_regenerates [where fs = "corruptFs\<lparr> keypair_file := Some ''{good}'' \<rparr>"
      and content = "''{good}''" and parse = parse1 and dec = decode1
      and kp = "\<lparr> publicKey = [1, 2], privateKey = [3, 4] \<rparr>" and enc = encode1
      and str = stringify1 and fresh = freshKeypair and nowIso = "''2024-03-01''"]
    getOrCreateKeypair_regenerates [where fs = "corruptFs\<lparr> keypair_file := None \<rparr>"
      and content = "''{good}''" and parse = parse1 and dec = decode1
      and kp = "\<lparr> publicKey = [1, 2], privateKey = [3, 4] \<rparr>" and enc = encode1
      and str = stringify1 and fresh = freshKeypair and nowIso = "''2024-03-01''"]
  by (simp add: corruptFs_def parse1_def decode1_def encode1_def stringify1_def
      freshKeypair_def goodStored_def decodeStored_def getOrCreateKeypair_def loadKeypair_def
      saveKeypair_def ensureKeysDir_def log_line_def Let_def)

text \<open>
  The claim as stated fails: with a file that holds a truncated record, the call does not
  fail. It returns the new keypair and the file holds the new keypair afterwards.
\<close>

theorem getOrCreateKeypair_corrupt_file_replaced:
  "keypair_file corruptFs = Some ''{ publicKey: AQ''
   \<and> decodeStored parse1 decode1 ''{ publicKey: AQ'' = None
   \<and> getOrCreateKeypair parse1 decode1 encode1 stringify1 freshKeypair ''2024-03-01'' corruptFs
      = (freshKeypair,
         \<lparr> keys_dir = True, keypair_file = Some ''{pk:BQY=}'',
           console = [''[keys] Failed to load keypair'',
                      ''[keys] Generating new X25519 keypair...'',
                      ''[keys] Saved new keypair''] \<rparr>)"
  by (simp add: corruptFs_def parse1_def decode1_def encode1_def stringify1_def
      freshKeypair_def decodeStored_def getOrCreateKeypair_def loadKeypair_def
      saveKeypair_def ensureKeysDir_def log_line_def Let_def)

section \<open>The audit chain\<close>

lemma verifyLoop_end: "length chain \<le> i \<Longrightarrow> verifyLoop S D chain i = ChainValid (length chain)"
  by (subst verifyLoop.simps) simp

lemma verifyLoop_step:
  "i < length chain \<Longrightarrow> entry_ok S D chain i \<Longrightarrow>
     verifyLoop S D chain i = verifyLoop S D chain (Suc i)"
  by (subst verifyLoop.simps) (simp add: entry_ok_def entryDigest_def Let_def)

lemma verifyLoop_hash_mismatch:
  "i < length chain \<Longrightarrow>
   entryProp (chain ! i) ''prevHash''
     = (if i = 0 then JStr GENESIS else entryProp (chain ! (i - 1)) ''hash'') \<Longrightarrow>
   entryProp (chain ! i) ''hash'' \<noteq> JStr (entryDigest S D (chain ! i)) \<Longrightarrow>
     verifyLoop S D chain i = ChainBroken i ''Hash mismatch''"
  by (subst verifyLoop.simps) (auto simp add: entryDigest_def Let_def)

lemma verifyLoop_skip:
  "i \<le> k \<Longrightarrow> k \<le> length chain \<Longrightarrow> (\<And>j. i \<le> j \<Longrightarrow> j < k \<Longrightarrow> entry_ok S D chain j) \<Longrightarrow>
     verifyLoop S D chain i = verifyLoop S D chain k"
proof (induction "k - i" arbitrary: i)
  case 0
  then show ?case by simp
next
  case (Suc n)
  then have "i < length chain" "entry_ok S D chain i" by auto
  then have "verifyLoop S D chain i = verifyLoop S D chain (Suc i)"
    by (rule verifyLoop_step)
  also have "\<dots> = verifyLoop S D chain k"
    using Suc by (intro Suc.hyps(1)) auto
  finally show ?case .
qed

lemma entryProp_new_entry:
  "entryProp (setProp [(''timestamp'', t), (''action'', a), (''details'', d), (''prevHash'', p)] ''hash'' h) ''hash'' = h"
  "entryProp (setProp [(''timestamp'', t), (''action'', a), (''details'', d), (''prevHash'', p)] ''hash'' h) ''prevHash'' = p"
  "removeProp (setProp [(''timestamp'', t), (''action'', a), (''details'', d), (''prevHash'', p)] ''hash'' h) ''hash''
     = [(''timestamp'', t), (''action'', a), (''details'', d), (''prevHash'', p)]"
  by (simp_all add: entryProp_def removeProp_def)

lemma addAuditEntry_chain:
  "auditChain (snd (addAuditEntry S D now a d st)) = auditChain st @ [fst (addAuditEntry S D now a d st)]"
  by (simp add: addAuditEntry_def Let_def)

lemma addAuditEntry_ok:
  assumes "\<And>j. j < length (auditChain st) \<Longrightarrow> entry_ok S D (auditChain st) j"
    and "j < length (auditChain (snd (addAuditEntry S D now a d st)))"
  shows "entry_ok S D (auditChain (snd (addAuditEntry S D now a d st))) j"
proof (cases "j < length (auditChain st)")
  case True
  then have "entry_ok S D (auditChain st) j" by (rule assms(1))
  with True show ?thesis
    by (auto simp: entry_ok_def addAuditEntry_chain nth_append)
next
  case False
  with assms(2) have j: "j = length (auditChain st)"
    by (simp add: addAuditEntry_chain)
  show ?thesis
  proof (cases "auditChain st = []")
    case True
    with j show ?thesis
      by (simp add: entry_ok_def addAuditEntry_def Let_def entryDigest_def entryProp_new_entry
          del: setProp.simps)
  next
    case False
    with j show ?thesis
      by (simp add: entry_ok_def addAuditEntry_def Let_def entryDigest_def entryProp_new_entry
          nth_append last_conv_nth del: setProp.simps)
  qed
qed

lemma appendAll_ok:
  "(\<And>j. j < length (auditChain st) \<Longrightarrow> entry_ok S D (auditChain st) j) \<Longrightarrow>
   j < length (auditChain (appendAll S D calls st)) \<Longrightarrow>
     entry_ok S D (auditChain (appendAll S D calls st)) j"
proof (induction calls arbitrary: st j)
  case Nil
  then show ?case by simp
next
  case (Cons c calls)
  obtain now a d where c: "c = (now, a, d)" by (cases c)
  show ?case
    using Cons.prems unfolding c appendAll.simps
    by (intro Cons.IH addAuditEntry_ok) auto
qed

lemma length_appendAll:
  "length (auditChain (appendAll S D calls st)) = length (auditChain st) + length calls"
  by (induction calls arbitrary: st) (auto simp: addAuditEntry_chain)

lemma entryProp_setProp_other: "k' \<noteq> k \<Longrightarrow> entryProp (setProp e k x) k' = entryProp e k'"
  by (induction e) (auto simp: entryProp_def)

lemma alterDetails_nth:
  "j \<noteq> i \<Longrightarrow> auditChain (alterDetails i d st) ! j = auditChain st ! j"
  by (simp add: alterDetails_def)

lemma alterDetails_at:
  "i < length (auditChain st) \<Longrightarrow>
     auditChain (alterDetails i d st) ! i = setProp (auditChain st ! i) ''details'' d"
  by (simp add: alterDetails_def)

lemma length_alterDetails [simp]:
  "length (auditChain (alterDetails i d st)) = length (auditChain st)"
  by (simp add: alterDetails_def)

lemma appended_entries_ok:
  "j < length (auditChain (appendAll S D calls emptySdk)) \<Longrightarrow>
     entry_ok S D (auditChain (appendAll S D calls emptySdk)) j"
  by (intro appendAll_ok) (auto simp: emptySdk_def)

lemma verifyChain_appended:
  "verifyChain S D (appendAll S D calls emptySdk) = ChainValid (length calls)"
proof -
  let ?chain = "auditChain (appendAll S D calls emptySdk)"
  have len: "length ?chain = length calls"
    by (simp add: length_appendAll emptySdk_def)
  have "verifyLoop S D ?chain 0 = verifyLoop S D ?chain (length ?chain)"
    by (rule verifyLoop_skip) (auto intro: appended_entries_ok)
  then show ?thesis
    by (simp add: verifyChain_def verifyLoop_end len)
qed

text \<open>
  Claim C4. A chain built from the empty chain by sequential calls of \<^verbatim>\<open>addAuditEntry\<close>
  verifies, with one entry per call; the first entry's \<open>prevHash\<close> is 64 zero digits,
  every later entry's \<open>prevHash\<close> is the hash of the entry before it, and every entry's
  hash is the digest of the serialisation of the entry without its \<open>hash\<close> property.
\<close>

theorem appended_chain_verifies:
  "verifyChain S D (appendAll S D calls emptySdk) = ChainValid (length calls)
   \<and> (\<forall>i < length (auditChain (appendAll S D calls emptySdk)).
        entryProp (auditChain (appendAll S D calls emptySdk) ! i) ''prevHash''
          = (if i = 0 then JStr (replicate 64 (CHR ''0''))
             else entryProp (auditChain (appendAll S D calls emptySdk) ! (i - 1)) ''hash'')
        \<and> entryProp (auditChain (appendAll S D calls emptySdk) ! i) ''hash''
          = JStr (D (S (JObj (removeProp (auditChain (appendAll S D calls emptySdk) ! i) ''hash'')))))"
proof -
  let ?chain = "auditChain (appendAll S D calls emptySdk)"
  have ok: "entry_ok S D ?chain j" if "j < length ?chain" for j
    using that by (intro appendAll_ok) (auto simp: emptySdk_def)
  have len: "length ?chain = length calls"
    by (simp add: length_appendAll emptySdk_def)
  have "verifyLoop S D ?chain 0 = verifyLoop S D ?chain (length ?chain)"
    by (rule verifyLoop_skip) (auto intro: ok)
  then have "verifyChain S D (appendAll S D calls emptySdk) = ChainValid (length calls)"
    by (simp add: verifyChain_def verifyLoop_end len)
  moreover have "\<forall>i < length ?chain.
        entryProp (?chain ! i) ''prevHash''
          = (if i = 0 then JStr (replicate 64 (CHR ''0'')) else entryProp (?chain ! (i - 1)) ''hash'')
        \<and> entryProp (?chain ! i) ''hash'' = JStr (D (S (JObj (removeProp (?chain ! i) ''hash''))))"
    using ok unfolding entry_ok_def entryDigest_def GENESIS_def by blast
  ultimately show ?thesis by blast
qed

theorem appended_chain_verifies_witness:
  "verifyChain show_js digest1 (appendAll show_js digest1 calls3 emptySdk) = ChainValid 3
   \<and> (1::nat) < length (auditChain (appendAll show_js digest1 calls3 emptySdk))
   \<and> entryProp (auditChain (appendAll show_js digest1 calls3 emptySdk) ! 0) ''prevHash''
       = JStr ''0000000000000000000000000000000000000000000000000000000000000000''
   \<and> entryProp (auditChain (appendAll show_js digest1 calls3 emptySdk) ! 1) ''prevHash''
       = entryProp (auditChain (appendAll show_js digest1 calls3 emptySdk) ! 0) ''hash''
   \<and> entryProp (auditChain (appendAll show_js digest1 calls3 emptySdk) ! 1) ''hash''
       = JStr (digest1 (show_js (JObj (removeProp (auditChain (appendAll show_js digest1 calls3 emptySdk) ! 1) ''hash''))))"
proof -
  let ?chain = "auditChain (appendAll show_js digest1 calls3 emptySdk)"
  have len: "length ?chain = 3" "length calls3 = 3"
    by (simp_all add: length_appendAll emptySdk_def, simp_all add: calls3_def)
  have zeros: "replicate 64 (CHR ''0'') = ''0000000000000000000000000000000000000000000000000000000000000000''"
    by code_simp
  note all = appended_chain_verifies [of show_js digest1 calls3]
  from all have v: "verifyChain show_js digest1 (appendAll show_js digest1 calls3 emptySdk) = ChainValid 3"
    using len by simp
  from all len have "\<forall>i<3. entryProp (?chain ! i) ''prevHash''
          = (if i = 0 then JStr (replicate 64 (CHR ''0'')) else entryProp (?chain ! (i - 1)) ''hash'')
        \<and> entryProp (?chain ! i) ''hash'' = JStr (digest1 (show_js (JObj (removeProp (?chain ! i) ''hash''))))"
    by simp
  then have "entryProp (?chain ! 0) ''prevHash'' = JStr (replicate 64 (CHR ''0''))"
    and "entryProp (?chain ! 1) ''prevHash'' = entryProp (?chain ! (1 - 1)) ''hash''"
    and "entryProp (?chain ! 1) ''hash'' = JStr (digest1 (show_js (JObj (removeProp (?chain ! 1) ''hash''))))"
    by simp_all
  with v len zeros show ?thesis by simp
qed

lemma verifyChain_altered:
  assumes "i < length calls"
    and "entryDigest S D (setProp (auditChain (appendAll S D calls emptySdk) ! i) ''details'' d')
           \<noteq> entryDigest S D (auditChain (appendAll S D calls emptySdk) ! i)"
  shows "verifyChain S D (alterDetails i d' (appendAll S D calls emptySdk)) = ChainBroken i ''Hash mismatch''"
proof -
  let ?st = "appendAll S D calls emptySdk"
  let ?chain = "auditChain ?st"
  let ?chain' = "auditChain (alterDetails i d' ?st)"
  have len: "length ?chain = length calls"
    by (simp add: length_appendAll emptySdk_def)
  have i: "i < length ?chain" using assms(1) len by simp
  have ok: "entry_ok S D ?chain j" if "j < length ?chain" for j
    using that by (rule appended_entries_ok)
  have before: "entry_ok S D ?chain' j" if "j < i" for j
  proof -
    have "entry_ok S D ?chain j" using that i by (intro ok) simp
    moreover have "?chain' ! j = ?chain ! j" "?chain' ! (j - 1) = ?chain ! (j - 1)"
      using that by (simp_all add: alterDetails_nth)
    ultimately show ?thesis by (simp add: entry_ok_def)
  qed
  have skip: "verifyLoop S D ?chain' 0 = verifyLoop S D ?chain' i"
    using i by (intro verifyLoop_skip) (auto intro: before)
  have at: "?chain' ! i = setProp (?chain ! i) ''details'' d'"
    using i by (rule alterDetails_at)
  have prev_same: "i \<noteq> 0 \<Longrightarrow> ?chain' ! (i - 1) = ?chain ! (i - 1)"
    by (simp add: alterDetails_nth)
  have oki: "entry_ok S D ?chain i" using i by (rule ok)
  have prev: "entryProp (?chain' ! i) ''prevHash''
      = (if i = 0 then JStr GENESIS else entryProp (?chain' ! (i - 1)) ''hash'')"
    using oki prev_same by (auto simp: at entryProp_setProp_other entry_ok_def)
  have hash: "entryProp (?chain' ! i) ''hash'' \<noteq> JStr (entryDigest S D (?chain' ! i))"
    using oki assms(2) by (simp add: at entryProp_setProp_other entry_ok_def)
  have "verifyLoop S D ?chain' i = ChainBroken i ''Hash mismatch''"
    using i prev hash by (intro verifyLoop_hash_mismatch) simp_all
  with skip show ?thesis by (simp add: verifyChain_def)
qed

lemma altered_entry_ok_same_digest:
  assumes "i < length chain"
    and "entryDigest S D (setProp (chain ! i) ''details'' d') = entryDigest S D (chain ! i)"
    and "j < length chain"
  shows "entry_ok S D (chain[i := setProp (chain ! i) ''details'' d']) j = entry_ok S D chain j"
proof -
  let ?chain' = "chain[i := setProp (chain ! i) ''details'' d']"
  have props: "entryProp (?chain' ! k) ''hash'' = entryProp (chain ! k) ''hash''"
    "entryProp (?chain' ! k) ''prevHash'' = entryProp (chain ! k) ''prevHash''"
    "entryDigest S D (?chain' ! k) = entryDigest S D (chain ! k)" if "k < length chain" for k
    using that assms(1,2) by (cases "k = i"; simp add: entryProp_setProp_other)+
  have "j - 1 < length chain" using assms(3) by simp
  with props [of j] props [of "j - 1"] assms(3) show ?thesis
    by (simp add: entry_ok_def)
qed

lemma verifyChain_altered_same_digest:
  assumes "i < length calls"
    and "entryDigest S D (setProp (auditChain (appendAll S D calls emptySdk) ! i) ''details'' d')
           = entryDigest S D (auditChain (appendAll S D calls emptySdk) ! i)"
  shows "verifyChain S D (alterDetails i d' (appendAll S D calls emptySdk)) = ChainValid (length calls)"
proof -
  let ?st = "appendAll S D calls emptySdk"
  let ?chain = "auditChain ?st"
  let ?chain' = "auditChain (alterDetails i d' ?st)"
  have len: "length ?chain = length calls"
    by (simp add: length_appendAll emptySdk_def)
  have i: "i < length ?chain" using assms(1) len by simp
  have c': "?chain' = ?chain[i := setProp (?chain ! i) ''details'' d']"
    by (simp add: alterDetails_def)
  have ok: "entry_ok S D ?chain' j" if "j < length ?chain'" for j
  proof -
    have j: "j < length ?chain" using that by simp
    then have "entry_ok S D ?chain j" by (rule appended_entries_ok)
    with altered_entry_ok_same_digest [OF i assms(2) j] show ?thesis
      unfolding c' by simp
  qed
  have "verifyLoop S D ?chain' 0 = verifyLoop S D ?chain' (length ?chain')"
    by (rule verifyLoop_skip) (auto intro: ok)
  then show ?thesis
    by (simp add: verifyChain_def verifyLoop_end len)
qed

lemma dropped_property_same_chain:
  "verifyChain JSON_stringify D
     (alterDetails 0 (JObj [(''tokenId'', JStr ''t1'')])
        (appendAll JSON_stringify D
           [(100, JStr ''ANALYSIS_COMPLETE'',
             JObj [(''tokenId'', JStr ''t1''), (''processingTime'', JUndefined)])] emptySdk))
     = ChainValid 1"
proof -
  have "verifyChain JSON_stringify D
     (alterDetails 0 (JObj [(''tokenId'', JStr ''t1'')])
        (appendAll JSON_stringify D
           [(100, JStr ''ANALYSIS_COMPLETE'',
             JObj [(''tokenId'', JStr ''t1''), (''processingTime'', JUndefined)])] emptySdk))
     = ChainValid (length [(100::int, JStr ''ANALYSIS_COMPLETE'',
             JObj [(''tokenId'', JStr ''t1''), (''processingTime'', JUndefined)])])"
    by (rule verifyChain_altered_same_digest)
      (simp_all add: emptySdk_def addAuditEntry_def Let_def entryDigest_def removeProp_def)
  then show ?thesis by simp
qed

lemma appendAll_extends:
  "\<exists>ys. auditChain (appendAll S D calls st) = auditChain st @ ys"
proof (induction calls arbitrary: st)
  case Nil
  then show ?case by simp
next
  case (Cons c calls)
  obtain now a d where c: "c = (now, a, d)" by (cases c)
  from Cons.IH [of "snd (addAuditEntry S D now a d st)"]
  show ?case unfolding c by (auto simp: addAuditEntry_chain)
qed

lemma appended_entry_shape:
  "i < length calls \<Longrightarrow>
     \<exists>p h. auditChain (appendAll S D calls st) ! (length (auditChain st) + i)
        = [(''timestamp'', JNum (fst (calls ! i))), (''action'', fst (snd (calls ! i))),
           (''details'', snd (snd (calls ! i))), (''prevHash'', p), (''hash'', h)]"
proof (induction calls arbitrary: st i)
  case Nil
  then show ?case by simp
next
  case (Cons c calls)
  obtain now a d where c: "c = (now, a, d)" by (cases c)
  let ?st1 = "snd (addAuditEntry S D now a d st)"
  have len1: "length (auditChain ?st1) = Suc (length (auditChain st))"
    by (simp add: addAuditEntry_chain)
  show ?case
  proof (cases i)
    case 0
    obtain ys where ys: "auditChain (appendAll S D calls ?st1) = auditChain ?st1 @ ys"
      using appendAll_extends by blast
    have "auditChain (appendAll S D (c # calls) st) ! (length (auditChain st))
            = fst (addAuditEntry S D now a d st)"
      unfolding c by (simp add: ys addAuditEntry_chain nth_append)
    then show ?thesis
      using 0 unfolding c by (simp add: addAuditEntry_def Let_def)
  next
    case (Suc j)
    with Cons.prems have "j < length calls" by simp
    from Cons.IH [OF this, of ?st1] show ?thesis
      using Suc unfolding c by (simp add: len1)
  qed
qed

lemma entry_text_details:
  assumes "d \<noteq> JUndefined" and "d' \<noteq> JUndefined"
  shows "(JSON_stringify (JObj [(''timestamp'', JNum t), (''action'', a), (''details'', d'), (''prevHash'', p)])
          = JSON_stringify (JObj [(''timestamp'', JNum t), (''action'', a), (''details'', d), (''prevHash'', p)]))
         = (JSON_stringify d' = JSON_stringify d)"
  using assms by (cases "a = JUndefined"; cases "p = JUndefined"; simp)

lemma altered_entry_digest:
  assumes "inj D" and "i < length calls"
    and "snd (snd (calls ! i)) \<noteq> JUndefined" and "d' \<noteq> JUndefined"
  shows "(entryDigest JSON_stringify D
            (setProp (auditChain (appendAll JSON_stringify D calls emptySdk) ! i) ''details'' d')
          = entryDigest JSON_stringify D (auditChain (appendAll JSON_stringify D calls emptySdk) ! i))
         = (JSON_stringify d' = JSON_stringify (snd (snd (calls ! i))))"
proof -
  obtain p h where e: "auditChain (appendAll JSON_stringify D calls emptySdk) ! i
        = [(''timestamp'', JNum (fst (calls ! i))), (''action'', fst (snd (calls ! i))),
           (''details'', snd (snd (calls ! i))), (''prevHash'', p), (''hash'', h)]"
    using appended_entry_shape [OF assms(2), of JSON_stringify D emptySdk]
    by (auto simp: emptySdk_def)
  have "(entryDigest JSON_stringify D
            (setProp (auditChain (appendAll JSON_stringify D calls emptySdk) ! i) ''details'' d')
          = entryDigest JSON_stringify D (auditChain (appendAll JSON_stringify D calls emptySdk) ! i))
      = (JSON_stringify (JObj [(''timestamp'', JNum (fst (calls ! i))), (''action'', fst (snd (calls ! i))),
             (''details'', d'), (''prevHash'', p)])
          = JSON_stringify (JObj [(''timestamp'', JNum (fst (calls ! i))), (''action'', fst (snd (calls ! i))),
             (''details'', snd (snd (calls ! i))), (''prevHash'', p)]))"
    unfolding e entryDigest_def using assms(1)
    by (simp add: removeProp_def inj_eq del: JSON_stringify.simps)
  then show ?thesis
    using entry_text_details [OF assms(3,4)] by simp
qed

lemma inj_digest1: "inj digest1"
  by (simp add: inj_def digest1_def)

lemma json_quote_t2_t1: "json_quote ''t2'' \<noteq> json_quote ''t1''"
  by (simp add: json_quote_def json_escape_def control_escapes_def)

text \<open>
  Claim C5, as the code has it. Take the digest to be free of collisions. In a chain built
  by sequential appends, replace the \<open>details\<close> of entry \<open>i\<close> by another value (neither
  being \<^verbatim>\<open>undefined\<close>). If \<^verbatim>\<open>JSON.stringify\<close> writes the new value differently from the
  original one, \<^verbatim>\<open>verifyChain\<close> reports the chain broken, at index \<open>i\<close> itself and with a
  hash mismatch; if it writes both as the same text, the altered chain still verifies.
\<close>

theorem altered_details_detected:
  assumes "inj D" and "i < length calls"
    and "snd (snd (calls ! i)) \<noteq> JUndefined" and "d' \<noteq> JUndefined"
  shows "(JSON_stringify d' \<noteq> JSON_stringify (snd (snd (calls ! i))) \<longrightarrow>
            verifyChain JSON_stringify D (alterDetails i d' (appendAll JSON_stringify D calls emptySdk))
              = ChainBroken i ''Hash mismatch'')
       \<and> (JSON_stringify d' = JSON_stringify (snd (snd (calls ! i))) \<longrightarrow>
            verifyChain JSON_stringify D (alterDetails i d' (appendAll JSON_stringify D calls emptySdk))
              = ChainValid (length calls))"
  using altered_entry_digest [OF assms] assms(2)
  by (auto intro: verifyChain_altered verifyChain_altered_same_digest)

theorem altered_details_detected_witness:
  "inj digest1 \<and> (1::nat) < length calls3
   \<and> snd (snd (calls3 ! 1)) = JObj [(''tokenId'', JStr ''t1'')]
   \<and> JSON_stringify (JObj [(''tokenId'', JStr ''t2'')]) \<noteq> JSON_stringify (JObj [(''tokenId'', JStr ''t1'')])
   \<and> verifyChain JSON_stringify digest1
        (alterDetails 1 (JObj [(''tokenId'', JStr ''t2'')]) (appendAll JSON_stringify digest1 calls3 emptySdk))
       = ChainBroken 1 ''Hash mismatch''
   \<and> JSON_stringify (JObj [(''tokenId'', JStr ''t1''), (''note'', JUndefined)])
       = JSON_stringify (JObj [(''tokenId'', JStr ''t1'')])
   \<and> verifyChain JSON_stringify digest1
        (alterDetails 1 (JObj [(''tokenId'', JStr ''t1''), (''note'', JUndefined)])
           (appendAll JSON_stringify digest1 calls3 emptySdk))
       = ChainValid 3"
proof -
  have h1: "(1::nat) < length calls3" and len: "length calls3 = 3"
    and d: "snd (snd (calls3 ! 1)) = JObj [(''tokenId'', JStr ''t1'')]"
    by (simp_all add: calls3_def)
  have ne: "JSON_stringify (JObj [(''tokenId'', JStr ''t2'')]) \<noteq> JSON_stringify (JObj [(''tokenId'', JStr ''t1'')])"
    using json_quote_t2_t1 by simp
  have eq: "JSON_stringify (JObj [(''tokenId'', JStr ''t1''), (''note'', JUndefined)])
       = JSON_stringify (JObj [(''tokenId'', JStr ''t1'')])"
    by simp
  from altered_details_detected [where D = digest1 and i = 1 and calls = calls3
      and d' = "JObj [(''tokenId'', JStr ''t2'')]", OF inj_digest1 h1]
    altered_details_detected [where D = digest1 and i = 1 and calls = calls3
      and d' = "JObj [(''tokenId'', JStr ''t1''), (''note'', JUndefined)]", OF inj_digest1 h1]
    inj_digest1 h1 len d ne eq
  show ?thesis by simp
qed

text \<open>
  The claim as stated fails. \<^verbatim>\<open>JSON.stringify\<close> leaves out a property whose value is
  \<^verbatim>\<open>undefined\<close> (as \<open>processingTime\<close> is in the entry that \<^verbatim>\<open>executeAgent\<close> logs for a
  response without that field). Altering the \<open>details\<close> of such an entry to the object
  without the property gives the same text to hash, and the altered chain verifies.
\<close>

theorem dropped_undefined_property_undetected:
  "JObj [(''tokenId'', JStr ''t1'')]
     \<noteq> JObj [(''tokenId'', JStr ''t1''), (''processingTime'', JUndefined)]
   \<and> entryProp (auditChain
        (appendAll JSON_stringify digest1
           [(100, JStr ''ANALYSIS_COMPLETE'',
             JObj [(''tokenId'', JStr ''t1''), (''processingTime'', JUndefined)])] emptySdk) ! 0)
        ''details''
       = JObj [(''tokenId'', JStr ''t1''), (''processingTime'', JUndefined)]
   \<and> entryProp (auditChain
        (alterDetails 0 (JObj [(''tokenId'', JStr ''t1'')])
           (appendAll JSON_stringify digest1
              [(100, JStr ''ANALYSIS_COMPLETE'',
                JObj [(''tokenId'', JStr ''t1''), (''processingTime'', JUndefined)])] emptySdk)) ! 0)
        ''details''
       = JObj [(''tokenId'', JStr ''t1'')]
   \<and> verifyChain JSON_stringify digest1
        (appendAll JSON_stringify digest1
           [(100, JStr ''ANALYSIS_COMPLETE'',
             JObj [(''tokenId'', JStr ''t1''), (''processingTime'', JUndefined)])] emptySdk)
       = ChainValid 1
   \<and> verifyChain JSON_stringify digest1
        (alterDetails 0 (JObj [(''tokenId'', JStr ''t1'')])
           (appendAll JSON_stringify digest1
              [(100, JStr ''ANALYSIS_COMPLETE'',
                JObj [(''tokenId'', JStr ''t1''), (''processingTime'', JUndefined)])] emptySdk))
       = ChainValid 1"
proof -
  have "verifyChain JSON_stringify digest1
        (appendAll JSON_stringify digest1
           [(100, JStr ''ANALYSIS_COMPLETE'',
             JObj [(''tokenId'', JStr ''t1''), (''processingTime'', JUndefined)])] emptySdk)
       = ChainValid (length [(100::int, JStr ''ANALYSIS_COMPLETE'',
             JObj [(''tokenId'', JStr ''t1''), (''processingTime'', JUndefined)])])"
    by (rule verifyChain_appended)
  moreover have "entryProp (auditChain
        (appendAll JSON_stringify digest1
           [(100, JStr ''ANALYSIS_COMPLETE'',
             JObj [(''tokenId'', JStr ''t1''), (''processingTime'', JUndefined)])] emptySdk) ! 0)
        ''details''
       = JObj [(''tokenId'', JStr ''t1''), (''processingTime'', JUndefined)]"
    by (simp add: emptySdk_def addAuditEntry_def Let_def entryProp_def)
  moreover have "entryProp (auditChain
        (alterDetails 0 (JObj [(''tokenId'', JStr ''t1'')])
           (appendAll JSON_stringify digest1
              [(100, JStr ''ANALYSIS_COMPLETE'',
                JObj [(''tokenId'', JStr ''t1''), (''processingTime'', JUndefined)])] emptySdk)) ! 0)
        ''details''
       = JObj [(''tokenId'', JStr ''t1'')]"
    by (simp add: emptySdk_def addAuditEntry_def alterDetails_def Let_def entryProp_def)
  ultimately show ?thesis
    using dropped_property_same_chain [of digest1] by simp
qed

section \<open>Unwrapping\<close>

lemma decode_examples:
  "naclUtil_decodeBase64 ''AQIDBAUG'' = Inr [1, 2, 3, 4, 5, 6]"
  "naclUtil_decodeBase64 ''CQk='' = Inr [9, 9]"
  "naclUtil_decodeBase64 ''AAAAAAAAAAAAAAAAAAAAAAAAAAAAAAAA'' = Inr (replicate 24 0)"
  "naclUtil_decodeBase64 ''AAAA'' = Inr [0, 0, 0]"
  "naclUtil_decodeBase64 ''AQIDBAU'' = Inl (TypeError ''invalid encoding'')"
  "naclUtil_decodeBase64 ''undefined'' = Inl (TypeError ''invalid encoding'')"
  by code_simp+

text \<open>
  Claim C8, as the code has it. \<^verbatim>\<open>unwrapDEK\<close> throws its own error exactly on the path
  where the three fields decode and \<^verbatim>\<open>nacl.box.open\<close> returns \<^verbatim>\<open>null\<close>; when the library
  returns a key, that key is returned as it is, and every returned key is one the library
  returned (there is no partial success). There are further error conditions: an
  exception of the base64 decoder on any of the three fields, or one thrown by
  \<^verbatim>\<open>nacl.box.open\<close> itself, is thrown on by \<^verbatim>\<open>unwrapDEK\<close> as it is.
\<close>

theorem unwrapDEK_outcomes:
  "(dec (ciphertext w) = Inr ct \<and> dec (ephemeralPublicKey w) = Inr epk \<and> dec (nonce w) = Inr n \<longrightarrow>
      (box ct n epk sk = Inr None \<longrightarrow> unwrapDEK dec box w sk = Inl DEK_UNWRAP_FAILED)
      \<and> (box ct n epk sk = Inr (Some dek) \<longrightarrow> unwrapDEK dec box w sk = Inr dek)
      \<and> (box ct n epk sk = Inl e \<longrightarrow> unwrapDEK dec box w sk = Inl e))
   \<and> (dec (ciphertext w) = Inl e \<longrightarrow> unwrapDEK dec box w sk = Inl e)
   \<and> (dec (ciphertext w) = Inr ct \<and> dec (ephemeralPublicKey w) = Inl e \<longrightarrow>
        unwrapDEK dec box w sk = Inl e)
   \<and> (dec (ciphertext w) = Inr ct \<and> dec (ephemeralPublicKey w) = Inr epk \<and> dec (nonce w) = Inl e \<longrightarrow>
        unwrapDEK dec box w sk = Inl e)
   \<and> (unwrapDEK dec box w sk = Inr dek \<longrightarrow>
        (\<exists>ct' epk' n'. dec (ciphertext w) = Inr ct' \<and> dec (ephemeralPublicKey w) = Inr epk'
           \<and> dec (nonce w) = Inr n' \<and> box ct' n' epk' sk = Inr (Some dek)))"
  by (auto simp: unwrapDEK_def split: sum.splits option.splits)

theorem unwrapDEK_outcomes_witness:
  "naclUtil_decodeBase64 (ciphertext wrapped1) = Inr [1, 2, 3, 4, 5, 6]
   \<and> naclUtil_decodeBase64 (ephemeralPublicKey wrapped1) = Inr [9, 9]
   \<and> naclUtil_decodeBase64 (nonce wrapped1) = Inr (replicate 24 0)
   \<and> box1 [1, 2, 3, 4, 5, 6] (replicate 24 0) [9, 9] [7, 8] = Inr None
   \<and> unwrapDEK naclUtil_decodeBase64 box1 wrapped1 [7, 8] = Inl DEK_UNWRAP_FAILED
   \<and> box1 [1, 2, 3, 4, 5, 6] (replicate 24 0) [9, 9] [7, 7] = Inr (Some [1, 2, 3, 4, 5, 6])
   \<and> unwrapDEK naclUtil_decodeBase64 box1 wrapped1 [7, 7] = Inr [1, 2, 3, 4, 5, 6]
   \<and> naclUtil_decodeBase64 (nonce (wrapped1\<lparr> nonce := ''AAAA'' \<rparr>)) = Inr [0, 0, 0]
   \<and> box1 [1, 2, 3, 4, 5, 6] [0, 0, 0] [9, 9] [7, 7] = Inl (Error ''bad nonce size'')
   \<and> unwrapDEK naclUtil_decodeBase64 box1 (wrapped1\<lparr> nonce := ''AAAA'' \<rparr>) [7, 7]
       = Inl (Error ''bad nonce size'')
   \<and> naclUtil_decodeBase64 (ciphertext (wrapped1\<lparr> ciphertext := ''AQIDBAU'' \<rparr>))
       = Inl (TypeError ''invalid encoding'')
   \<and> unwrapDEK naclUtil_decodeBase64 box1 (wrapped1\<lparr> ciphertext := ''AQIDBAU'' \<rparr>) [7, 7]
       = Inl (TypeError ''invalid encoding'')
   \<and> naclUtil_decodeBase64 (ephemeralPublicKey (wrapped1\<lparr> ephemeralPublicKey := ''CQk'' \<rparr>))
       = Inl (TypeError ''invalid encoding'')
   \<and> unwrapDEK naclUtil_decodeBase64 box1 (wrapped1\<lparr> ephemeralPublicKey := ''CQk'' \<rparr>) [7, 7]
       = Inl (TypeError ''invalid encoding'')
   \<and> naclUtil_decodeBase64 (nonce (wrapped1\<lparr> nonce := ''AAA'' \<rparr>)) = Inl (TypeError ''invalid encoding'')
   \<and> unwrapDEK naclUtil_decodeBase64 box1 (wrapped1\<lparr> nonce := ''AAA'' \<rparr>) [7, 7]
       = Inl (TypeError ''invalid encoding'')
   \<and> (\<exists>ct epk n. naclUtil_decodeBase64 (ciphertext wrapped1) = Inr ct
         \<and> naclUtil_decodeBase64 (ephemeralPublicKey wrapped1) = Inr epk
         \<and> naclUtil_decodeBase64 (nonce wrapped1) = Inr n
         \<and> box1 ct n epk [7, 7] = Inr (Some [1, 2, 3, 4, 5, 6]))"
proof -
  have d: "naclUtil_decodeBase64 ''AQIDBAUG'' = Inr [1, 2, 3, 4, 5, 6]"
    "naclUtil_decodeBase64 ''CQk='' = Inr [9, 9]"
    "naclUtil_decodeBase64 ''AAAAAAAAAAAAAAAAAAAAAAAAAAAAAAAA'' = Inr (replicate 24 0)"
    "naclUtil_decodeBase64 ''AAAA'' = Inr [0, 0, 0]"
    "naclUtil_decodeBase64 ''AQIDBAU'' = Inl (TypeError ''invalid encoding'')"
    "naclUtil_decodeBase64 ''CQk'' = Inl (TypeError ''invalid encoding'')"
    "naclUtil_decodeBase64 ''AAA'' = Inl (TypeError ''invalid encoding'')"
    by code_simp+
  have b: "box1 [1, 2, 3, 4, 5, 6] (replicate 24 0) [9, 9] [7, 8] = Inr None"
    "box1 [1, 2, 3, 4, 5, 6] (replicate 24 0) [9, 9] [7, 7] = Inr (Some [1, 2, 3, 4, 5, 6])"
    "box1 [1, 2, 3, 4, 5, 6] [0, 0, 0] [9, 9] [7, 7] = Inl (Error ''bad nonce size'')"
    by (simp_all add: box1_def)
  have w: "naclUtil_decodeBase64 (ciphertext wrapped1) = Inr [1, 2, 3, 4, 5, 6]"
    "naclUtil_decodeBase64 (ephemeralPublicKey wrapped1) = Inr [9, 9]"
    "naclUtil_decodeBase64 (nonce wrapped1) = Inr (replicate 24 0)"
    using d by (simp_all add: wrapped1_def)
  have w1: "naclUtil_decodeBase64 (ciphertext (wrapped1\<lparr> nonce := ''AAAA'' \<rparr>)) = Inr [1, 2, 3, 4, 5, 6]"
    "naclUtil_decodeBase64 (ephemeralPublicKey (wrapped1\<lparr> nonce := ''AAAA'' \<rparr>)) = Inr [9, 9]"
    "naclUtil_decodeBase64 (nonce (wrapped1\<lparr> nonce := ''AAAA'' \<rparr>)) = Inr [0, 0, 0]"
    using d w by simp_all
  have w2: "naclUtil_decodeBase64 (ciphertext (wrapped1\<lparr> ciphertext := ''AQIDBAU'' \<rparr>))
       = Inl (TypeError ''invalid encoding'')"
    using d by simp
  have w3: "naclUtil_decodeBase64 (ciphertext (wrapped1\<lparr> ephemeralPublicKey := ''CQk'' \<rparr>)) = Inr [1, 2, 3, 4, 5, 6]"
    "naclUtil_decodeBase64 (ephemeralPublicKey (wrapped1\<lparr> ephemeralPublicKey := ''CQk'' \<rparr>))
       = Inl (TypeError ''invalid encoding'')"
    using d w by simp_all
  have w4: "naclUtil_decodeBase64 (ciphertext (wrapped1\<lparr> nonce := ''AAA'' \<rparr>)) = Inr [1, 2, 3, 4, 5, 6]"
    "naclUtil_decodeBase64 (ephemeralPublicKey (wrapped1\<lparr> nonce := ''AAA'' \<rparr>)) = Inr [9, 9]"
    "naclUtil_decodeBase64 (nonce (wrapped1\<lparr> nonce := ''AAA'' \<rparr>)) = Inl (TypeError ''invalid encoding'')"
    using d w by simp_all
  note outcomes = unwrapDEK_outcomes [where dec = naclUtil_decodeBase64 and box = box1]
  have rejected: "unwrapDEK naclUtil_decodeBase64 box1 wrapped1 [7, 8] = Inl DEK_UNWRAP_FAILED"
    using outcomes [where w = wrapped1 and sk = "[7, 8]" and ct = "[1, 2, 3, 4, 5, 6]"
        and epk = "[9, 9]" and n = "replicate 24 0" and dek = "[]" and e = "Error []"]
      w b(1) by blast
  have opened: "unwrapDEK naclUtil_decodeBase64 box1 wrapped1 [7, 7] = Inr [1, 2, 3, 4, 5, 6]"
    using outcomes [where w = wrapped1 and sk = "[7, 7]" and ct = "[1, 2, 3, 4, 5, 6]"
        and epk = "[9, 9]" and n = "replicate 24 0" and dek = "[1, 2, 3, 4, 5, 6]" and e = "Error []"]
      w b(2) by blast
  have from_opened: "\<exists>ct epk n. naclUtil_decodeBase64 (ciphertext wrapped1) = Inr ct
         \<and> naclUtil_decodeBase64 (ephemeralPublicKey wrapped1) = Inr epk
         \<and> naclUtil_decodeBase64 (nonce wrapped1) = Inr n
         \<and> box1 ct n epk [7, 7] = Inr (Some [1, 2, 3, 4, 5, 6])"
    using outcomes [where w = wrapped1 and sk = "[7, 7]" and ct = "[1, 2, 3, 4, 5, 6]"
        and epk = "[9, 9]" and n = "replicate 24 0" and dek = "[1, 2, 3, 4, 5, 6]" and e = "Error []"]
      opened by blast
  have size: "unwrapDEK naclUtil_decodeBase64 box1 (wrapped1\<lparr> nonce := ''AAAA'' \<rparr>) [7, 7]
       = Inl (Error ''bad nonce size'')"
    using outcomes [where w = "wrapped1\<lparr> nonce := ''AAAA'' \<rparr>" and sk = "[7, 7]"
        and ct = "[1, 2, 3, 4, 5, 6]" and epk = "[9, 9]" and n = "[0, 0, 0]" and dek = "[]"
        and e = "Error ''bad nonce size''"]
      w1 b(3) by blast
  have bad1: "unwrapDEK naclUtil_decodeBase64 box1 (wrapped1\<lparr> ciphertext := ''AQIDBAU'' \<rparr>) [7, 7]
       = Inl (TypeError ''invalid encoding'')"
    using outcomes [where w = "wrapped1\<lparr> ciphertext := ''AQIDBAU'' \<rparr>" and sk = "[7, 7]"
        and ct = "[]" and epk = "[]" and n = "[]" and dek = "[]"
        and e = "TypeError ''invalid encoding''"]
      w2 by blast
  have bad2: "unwrapDEK naclUtil_decodeBase64 box1 (wrapped1\<lparr> ephemeralPublicKey := ''CQk'' \<rparr>) [7, 7]
       = Inl (TypeError ''invalid encoding'')"
    using outcomes [where w = "wrapped1\<lparr> ephemeralPublicKey := ''CQk'' \<rparr>" and sk = "[7, 7]"
        and ct = "[1, 2, 3, 4, 5, 6]" and epk = "[]" and n = "[]" and dek = "[]"
        and e = "TypeError ''invalid encoding''"]
      w3 by blast
  have bad3: "unwrapDEK naclUtil_decodeBase64 box1 (wrapped1\<lparr> nonce := ''AAA'' \<rparr>) [7, 7]
       = Inl (TypeError ''invalid encoding'')"
    using outcomes [where w = "wrapped1\<lparr> nonce := ''AAA'' \<rparr>" and sk = "[7, 7]"
        and ct = "[1, 2, 3, 4, 5, 6]" and epk = "[9, 9]" and n = "[]" and dek = "[]"
        and e = "TypeError ''invalid encoding''"]
      w4 by blast
  from w w1(3) w2 w3(2) w4(3) b rejected opened from_opened size bad1 bad2 bad3
  show ?thesis by blast
qed

text \<open>
  The claim as stated fails: a wrapped key whose ciphertext text has lost a character is
  rejected with the decoder's \<open>TypeError\<close>, not with the unwrapping error, and before the
  decryption primitive is consulted (the primitive here would accept anything); and a
  nonce of three bytes is rejected with the library's own error about its size.
\<close>

theorem unwrapDEK_invalid_encoding_error:
  "unwrapDEK naclUtil_decodeBase64 (\<lambda>ct n pk sk. Inr (Some [1, 2, 3]))
     (wrapped1\<lparr> ciphertext := ''AQIDBAU'' \<rparr>) [7, 7] = Inl (TypeError ''invalid encoding'')
   \<and> TypeError ''invalid encoding'' \<noteq> DEK_UNWRAP_FAILED
   \<and> unwrapDEK naclUtil_decodeBase64 (\<lambda>ct n pk sk. Inr (Some [1, 2, 3])) wrapped1 [7, 7]
       = Inr [1, 2, 3]
   \<and> unwrapDEK naclUtil_decodeBase64 box1 (wrapped1\<lparr> nonce := ''AAAA'' \<rparr>) [7, 7]
       = Inl (Error ''bad nonce size'')
   \<and> Error ''bad nonce size'' \<noteq> DEK_UNWRAP_FAILED"
proof -
  have "naclUtil_decodeBase64 ''AQIDBAU'' = Inl (TypeError ''invalid encoding'')"
    "naclUtil_decodeBase64 ''AQIDBAUG'' = Inr [1, 2, 3, 4, 5, 6]"
    "naclUtil_decodeBase64 ''CQk='' = Inr [9, 9]"
    "naclUtil_decodeBase64 ''AAAAAAAAAAAAAAAAAAAAAAAAAAAAAAAA'' = Inr (replicate 24 0)"
    "naclUtil_decodeBase64 ''AAAA'' = Inr [0, 0, 0]"
    by code_simp+
  then show ?thesis
    by (simp add: unwrapDEK_def wrapped1_def DEK_UNWRAP_FAILED_def box1_def)
qed

section \<open>Validation leaves the token as it is\<close>

lemma verifyTokenSignature_store:
  "snd (verifyTokenSignature str dec enc ver h token pk)
     = h @ [(h ! token)\<lparr> ct_sig := None, ct_sigAlg := None \<rparr>]"
  by (simp add: verifyTokenSignature_def Let_def split: sum.splits)

text \<open>
  Claim C9. None of \<^verbatim>\<open>verifyTokenSignature\<close>, \<^verbatim>\<open>isTokenExpired\<close> and \<^verbatim>\<open>validateToken\<close>
  changes the token it is given. After a signature check the token at its address is the
  token as it was, with its \<open>sig\<close> and \<open>sigAlg\<close> (the two deletions reach only the copy);
  every object of the store is as before; the expiry check and the SDK's validation
  return the store and the SDK state they received, and an accepting verdict carries the
  registered token itself.
\<close>

theorem validation_leaves_token_unchanged:
  assumes "token < length h"
  shows "snd (verifyTokenSignature str dec enc ver h token pk) ! token = h ! token
     \<and> ct_sig (snd (verifyTokenSignature str dec enc ver h token pk) ! token) = ct_sig (h ! token)
     \<and> ct_sigAlg (snd (verifyTokenSignature str dec enc ver h token pk) ! token) = ct_sigAlg (h ! token)
     \<and> take (length h) (snd (verifyTokenSignature str dec enc ver h token pk)) = h
     \<and> snd (isTokenExpired h token nowMs) = h
     \<and> snd (validateToken st now tid req) = st
     \<and> (fst (validateToken st now tid req) = Valid tok \<longrightarrow> tokens st tid = Some tok)"
proof -
  have "snd (verifyTokenSignature str dec enc ver h token pk) ! token = h ! token"
    using assms by (simp add: verifyTokenSignature_store nth_append)
  moreover have "take (length h) (snd (verifyTokenSignature str dec enc ver h token pk)) = h"
    by (simp add: verifyTokenSignature_store)
  moreover have "snd (isTokenExpired h token nowMs) = h"
    by (simp add: isTokenExpired_def)
  moreover have "snd (validateToken st now tid req) = st"
    by (simp add: validateToken_def split: option.splits)
  moreover have "fst (validateToken st now tid req) = Valid tok \<longrightarrow> tokens st tid = Some tok"
    by (auto simp: validateToken_def split: option.splits if_splits)
  ultimately show ?thesis by simp
qed

theorem validation_leaves_token_unchanged_witness:
  "(0::nat) < length [demo_token []]
   \<and> verifyTokenSignature stringifyToken1 naclUtil_decodeBase64 (map of_char) verify1 [demo_token []] 0 [1]
       = (Inr True, [demo_token [], (demo_token [])\<lparr> ct_sig := None, ct_sigAlg := None \<rparr>])
   \<and> ct_sig (snd (verifyTokenSignature stringifyToken1 naclUtil_decodeBase64 (map of_char) verify1
        [demo_token []] 0 [1]) ! 0) = Some ''AAAA''
   \<and> ct_sigAlg (snd (verifyTokenSignature stringifyToken1 naclUtil_decodeBase64 (map of_char) verify1
        [demo_token []] 0 [1]) ! 0) = Some ''ed25519''
   \<and> fst (validateToken sdkA 5000 ''t1'' None) = Valid tokA
   \<and> tokens sdkA ''t1'' = Some tokA"
proof -
  have h: "(0::nat) < length [demo_token []]" by simp
  have d: "naclUtil_decodeBase64 ''AAAA'' = Inr [0, 0, 0]" by code_simp
  have v: "verifyTokenSignature stringifyToken1 naclUtil_decodeBase64 (map of_char) verify1 [demo_token []] 0 [1]
       = (Inr True, [demo_token [], (demo_token [])\<lparr> ct_sig := None, ct_sigAlg := None \<rparr>])"
    using d by (simp add: verifyTokenSignature_def Let_def demo_token_def verify1_def)
  have a: "fst (validateToken sdkA 5000 ''t1'' None) = Valid tokA"
    by (simp add: validateToken_def sdkA_def tokA_def)
  from validation_leaves_token_unchanged [OF h, where str = stringifyToken1
      and dec = naclUtil_decodeBase64 and enc = "map of_char" and ver = verify1 and pk = "[1]"
      and st = sdkA and now = 5000 and tid = "''t1''" and req = None and tok = tokA] a v h
  show ?thesis by (simp add: demo_token_def)
qed

section \<open>Revocation at the end of a run\<close>

lemma tokens_addAuditEntry [simp]: "tokens (snd (addAuditEntry S D now a d st)) = tokens st"
  by (simp add: addAuditEntry_def Let_def)

lemma tokens_signChain [simp]: "tokens (snd (signChain S D env wal st)) = tokens st"
  by (simp add: signChain_def Let_def split: option.splits)

lemma createAccessToken_Some:
  "createAccessToken rid rkey t1 t2 agent scs dur st = Some (tok, st') \<Longrightarrow>
     tokenId tok = rid \<and> tokens st' rid = Some tok \<and> \<not> revoked tok"
  by (auto simp: createAccessToken_def Let_def split: if_splits)

lemma revokeToken_revoked:
  "tokens st tid = Some tok \<Longrightarrow> tokens (revokeToken st tid) tid = Some (tok\<lparr> revoked := True \<rparr>)"
  by (simp add: revokeToken_def)

lemma validateToken_revoked:
  "tokens st tid = Some tok \<Longrightarrow> revoked tok \<Longrightarrow>
     fst (validateToken st now tid req) = Invalid ''Token revoked''"
  by (simp add: validateToken_def)

lemma executeAgent_final_tokens:
  assumes "fst (executeAgent S D toISO env meta hdata st) = Some res"
  shows "audit_tokenId res = rndTokenId env
     \<and> (\<exists>tok. tokens (snd (executeAgent S D toISO env meta hdata st)) (rndTokenId env) = Some tok
            \<and> revoked tok)"
proof -
  let ?st1 = "snd (addAuditEntry S D (clock env 0) (JStr ''WALLET_CONNECTED'')
                  (JObj [(''walletAddress'',
                            js_or (case getWalletState (ext env) of None \<Rightarrow> JUndefined | Some w \<Rightarrow> w_address w)
                              (JStr ''local'')),
                         (''extensionConnected'', JBool (getWalletState (ext env) \<noteq> None))]) st)"
  let ?create = "createAccessToken (rndTokenId env) (rndAgentKey env) (clock env 1) (clock env 2)
                (meta_id meta) (map (\<lambda>d. ''health/'' @ d @ ''/*'') (requiredData meta)
                @ map (\<lambda>d. ''health/'' @ d @ ''/*'') (optionalData meta))
                (parseDuration (accessDuration meta)) ?st1"
  obtain tok st2 where c: "?create = Some (tok, st2)"
    using assms by (cases ?create) (auto simp: executeAgent_def Let_def)
  from createAccessToken_Some [OF c]
  have tok: "tokenId tok = rndTokenId env" "tokens st2 (rndTokenId env) = Some tok" by auto
  obtain result where f: "fetched env = Some result"
    using assms c by (cases "fetched env") (auto simp: executeAgent_def Let_def)
  obtain pt where p: "getProp result ''processingTime'' = Some pt"
    using assms c f by (cases "getProp result ''processingTime''") (auto simp: executeAgent_def Let_def)
  show ?thesis
    using assms c f p tok
    by (auto simp: executeAgent_def Let_def revokeToken_revoked)
qed

text \<open>
  A revoked token stays revoked under every later call that does not register a new
  token under the same id.
\<close>

lemma revocation_is_stable:
  assumes "tokens st tid = Some tok" and "revoked tok"
  shows "\<exists>tok'. tokens (revokeToken st other) tid = Some tok' \<and> revoked tok'"
    and "\<exists>tok'. tokens (snd (validateToken st now other req)) tid = Some tok' \<and> revoked tok'"
    and "\<exists>tok'. tokens (snd (addAuditEntry S D now a d st)) tid = Some tok' \<and> revoked tok'"
    and "createAccessToken rid rkey t1 t2 agent scs dur st = Some (new, st') \<Longrightarrow> rid \<noteq> tid \<Longrightarrow>
           \<exists>tok'. tokens st' tid = Some tok' \<and> revoked tok'"
  using assms
  by (auto simp: revokeToken_def validateToken_def createAccessToken_def Let_def
      split: option.splits if_splits)

text \<open>
  Claim C10. Every run of \<^verbatim>\<open>executeAgent\<close> that returns has revoked the token it
  created: in the state the run leaves, \<^verbatim>\<open>validateToken\<close> on the returned token id
  answers \<open>Token revoked\<close>, at every time (before the expiry time too) and for every
  required scope.
\<close>

theorem executeAgent_revokes_token:
  assumes "fst (executeAgent S D toISO env meta hdata st) = Some res"
  shows "fst (validateToken (snd (executeAgent S D toISO env meta hdata st)) now (audit_tokenId res) req)
           = Invalid ''Token revoked''"
  using executeAgent_final_tokens [OF assms] by (auto intro: validateToken_revoked)

theorem executeAgent_revokes_token_witness:
  "fst (executeAgent show_js digest1 (\<lambda>t. show_nat (nat t)) env1 meta1 [(''sleep'', [JNull, JNull])] emptySdk) \<noteq> None
   \<and> fst (validateToken
        (snd (executeAgent show_js digest1 (\<lambda>t. show_nat (nat t)) env1 meta1 [(''sleep'', [JNull, JNull])] emptySdk))
        1010 ''dG9rZW4='' (Some ''health/sleep/2024'')) = Invalid ''Token revoked''
   \<and> map_option expiresAt (tokens
        (snd (executeAgent show_js digest1 (\<lambda>t. show_nat (nat t)) env1 meta1 [(''sleep'', [JNull, JNull])] emptySdk))
        ''dG9rZW4='') = Some 3601002"
proof -
  let ?run = "executeAgent show_js digest1 (\<lambda>t. show_nat (nat t)) env1 meta1 [(''sleep'', [JNull, JNull])] emptySdk"
  have d: "parseDuration (Some ''1h'') = 3600000"
    by (simp add: parseDuration_def parseInt_def isDigit_def)
  have "\<exists>res. fst ?run = Some res \<and> audit_tokenId res = ''dG9rZW4=''"
    by (simp add: executeAgent_def Let_def env1_def meta1_def createAccessToken_def valid_time_def d)
  then obtain res where r: "fst ?run = Some res" "audit_tokenId res = ''dG9rZW4=''"
    by blast
  have e: "map_option expiresAt (tokens (snd ?run) ''dG9rZW4='') = Some 3601002"
    by (simp add: executeAgent_def Let_def env1_def meta1_def createAccessToken_def valid_time_def d
        revokeToken_def)
  from executeAgent_revokes_token [OF r(1), of 1010 "Some ''health/sleep/2024''"] r e
  show ?thesis by simp
qed

section \<open>The payload cipher\<close>


lemma encryptData_payload:
  assumes "encryptData stringify btoa_bytes encode gcm_encrypt iv (JStr P) K = Inr payload"
  shows "payload = stringify (envelope (btoa_bytes (sealed gcm_encrypt (raw K) iv (encode P))) (btoa_bytes iv))"
  using assms by (auto simp: encryptData_def subtle_encrypt_def split: if_splits)

text \<open>
  Data that is not a string is encrypted as its JSON text, so that decryption gives that
  text; and a key without the usage \<open>encrypt\<close> produces no payload.
\<close>

lemma encryptData_other_data:
  assumes "\<forall>s. data \<noteq> JStr s" and "data \<noteq> JUndefined"
  shows "encryptData stringify btoa_bytes encode gcm_encrypt iv data key
           = encryptData stringify btoa_bytes encode gcm_encrypt iv (JStr (stringify data)) key"
  using assms by (cases data) (simp_all add: encryptData_def)

lemma encryptData_needs_usage:
  "''encrypt'' \<notin> set (usages key) \<Longrightarrow>
     encryptData stringify btoa_bytes encode gcm_encrypt iv data key = Inl InvalidAccessError"
  by (simp add: encryptData_def subtle_encrypt_def)














end
